theory Spec2Isabelle
  imports Complex_Main "HOL-Library.Sublist"
begin

section \<open>The command-line front end (main.cc)\<close>

subsection \<open>Processes: output, engine calls and the way a run ends\<close>

text \<open>
  A run of the program ends through \<open>exit(n)\<close> (or \<open>return n\<close> from \<open>main\<close>), or
  through an exception nobody catches (\<open>std::stoi\<close>, \<open>std::stof\<close>, or one thrown inside
  the engine), which ends the process abnormally.
\<close>

datatype status = Exited int | Aborted

definition EXIT_FAILURE :: int where
  "EXIT_FAILURE = 1"

text \<open>
  The fields of \<open>Args\<close> that main.cc reads. The class is declared in args.h, which is not
  part of the sources at hand; \<open>parseArgs\<close> fills it.
\<close>

record Args =
  args_output :: string
  args_saveOutput :: bool

text \<open>
  What a run does, in order: text sent to \<open>std::cout\<close> and \<open>std::cerr\<close>, and the calls
  into the engine (classes \<open>HornVecs\<close>, \<open>Args\<close>, \<open>Dictionary\<close>, \<open>Matrix\<close>), each with
  the arguments main.cc hands over. The type \<open>'h\<close> is the state of a \<open>HornVecs\<close> object.
\<close>

datatype 'h event =
    Out string
  | Err string
  | PrintHelp
  | ParseArgs "string list"
  | LoadModel string
  | Quantize 'h Args
  | SaveModel 'h
  | SaveVectors 'h
  | SaveOutput 'h
  | Train Args
  | Test 'h string int real
  | Predict 'h string int bool real
  | GetWordVector 'h string
  | GetSentenceVector 'h string
  | NgramVectors 'h string
  | PrecomputeWordVectors 'h
  | FindNN 'h "real list" int "string list"
  | Analogies 'h int

text \<open>
  Everything main.cc relies on without defining it: the standard input, the files that
  \<open>std::ifstream\<close> can open, the number parsers and printers of the standard library, and
  the results of the engine's member functions (hornvecs.h and args.h are absent). An
  engine call either returns its value or ends the process (\<open>Inl\<close>); \<open>fails\<close> says so
  for the member functions that return nothing. The four \<open>dump_\<close> fields are the text
  that \<open>getArgs().dump\<close>, \<open>getDictionary()->dump\<close>, \<open>getInputMatrix()->dump\<close> and
  \<open>getOutputMatrix()->dump\<close> write to \<open>std::cout\<close>; \<open>show_real p x\<close> is \<open>x\<close> printed at
  precision \<open>p\<close> and \<open>show_vec\<close> the \<open>operator<<\<close> of \<open>Vector\<close>. The type \<open>real\<close> of the
  source (a C++ floating-point type) is read as the real numbers. What an engine call writes
  to \<open>std::cerr\<close> is \<open>engine_stderr\<close>, and \<open>io_error\<close> gives the path of the file on which
  an engine call meets an I/O error, when it meets one.
\<close>

record 'h world =
  stdin :: string
  files :: "string \<rightharpoonup> string"
  std_stoi :: "string \<Rightarrow> int option"
  std_stof :: "string \<Rightarrow> real option"
  show_real :: "nat \<Rightarrow> real \<Rightarrow> string"
  show_vec :: "real list \<Rightarrow> string"
  args_parseArgs :: "string list \<Rightarrow> status + Args"
  hv_loadModel :: "string \<Rightarrow> status + 'h"
  hv_quantize :: "'h \<Rightarrow> Args \<Rightarrow> status + 'h"
  hv_train :: "Args \<Rightarrow> status + 'h"
  hv_test :: "'h \<Rightarrow> string \<Rightarrow> int \<Rightarrow> real \<Rightarrow> status + (int \<times> real \<times> real)"
  hv_isQuant :: "'h \<Rightarrow> bool"
  hv_getWordVector :: "'h \<Rightarrow> string \<Rightarrow> status + real list"
  hv_getSentenceVector :: "'h \<Rightarrow> string \<Rightarrow> status + (real list \<times> string)"
  hv_findNN :: "'h \<Rightarrow> real list \<Rightarrow> int \<Rightarrow> string list \<Rightarrow> status + (real \<times> string) list"
  dump_args :: "'h \<Rightarrow> string"
  dump_dict :: "'h \<Rightarrow> string"
  dump_input :: "'h \<Rightarrow> string"
  dump_output :: "'h \<Rightarrow> string"
  fails :: "'h event \<Rightarrow> status option"
  engine_stderr :: "'h event \<Rightarrow> string"
  io_error :: "'h event \<Rightarrow> string option"

type_synonym ('h, 'a) proc = "'h event list \<times> (status + 'a)"

definition ret :: "'a \<Rightarrow> ('h, 'a) proc" where
  "ret x = ([], Inr x)"

definition say :: "'h event \<Rightarrow> ('h, unit) proc" where
  "say e = ([e], Inr ())"

definition exit_with :: "int \<Rightarrow> ('h, 'a) proc" where
  "exit_with n = ([], Inl (Exited n))"

definition throw :: "('h, 'a) proc" where
  "throw = ([], Inl Aborted)"

definition call :: "'h event \<Rightarrow> status + 'a \<Rightarrow> ('h, 'a) proc" where
  "call e r = ([e], r)"

definition call_void :: "'h world \<Rightarrow> 'h event \<Rightarrow> ('h, unit) proc" where
  "call_void w e = ([e], case fails w e of Some st \<Rightarrow> Inl st | None \<Rightarrow> Inr ())"

fun bnd :: "('h, 'a) proc \<Rightarrow> ('a \<Rightarrow> ('h, 'b) proc) \<Rightarrow> ('h, 'b) proc" where
  "bnd (es, Inl st) f = (es, Inl st)"
| "bnd (es, Inr x) f = (case f x of (es', r) \<Rightarrow> (es @ es', r))"

definition stoi :: "'h world \<Rightarrow> string \<Rightarrow> ('h, int) proc" where
  "stoi w s = (case std_stoi w s of None \<Rightarrow> throw | Some k \<Rightarrow> ret k)"

definition stof :: "'h world \<Rightarrow> string \<Rightarrow> ('h, real) proc" where
  "stof w s = (case std_stof w s of None \<Rightarrow> throw | Some x \<Rightarrow> ret x)"

subsection \<open>Text output\<close>

definition endl :: string where
  "endl = ''\<newline>''"

definition tab :: string where
  "tab = [CHR 0x09]"

fun show_nat :: "nat \<Rightarrow> string" where
  "show_nat n =
     (if n < 10 then [char_of (48 + n)]
      else show_nat (n div 10) @ [char_of (48 + n mod 10)])"

declare show_nat.simps [simp del]

definition show_int :: "int \<Rightarrow> string" where
  "show_int i = (if i < 0 then CHR ''-'' # show_nat (nat (- i)) else show_nat (nat i))"

text \<open>The words \<open>std::cin >> word\<close> extracts: maximal runs of non-whitespace characters.\<close>

definition isspace :: "char \<Rightarrow> bool" where
  "isspace c = (c \<in> set [CHR '' '', CHR 0x09, CHR 0x0A, CHR 0x0B, CHR 0x0C, CHR 0x0D])"

fun cin_words_aux :: "string \<Rightarrow> string \<Rightarrow> string list" where
  "cin_words_aux cur [] = (if cur = [] then [] else [rev cur])"
| "cin_words_aux cur (c # cs) =
     (if isspace c then (if cur = [] then [] else [rev cur]) @ cin_words_aux [] cs
      else cin_words_aux (c # cur) cs)"

definition cin_words :: "string \<Rightarrow> string list" where
  "cin_words s = cin_words_aux [] s"

subsection \<open>Usage messages\<close>

definition printUsage :: "('h, unit) proc" where
  "printUsage = say (Err (
     ''usage: hornvecs <command> <args>'' @ endl @ endl @
     ''The commands supported by hornvecs are:'' @ endl @ endl @
     ''  supervised              train a supervised classifier'' @ endl @
     ''  quantize                quantize a model to reduce the memory usage'' @ endl @
     ''  test                    evaluate a supervised classifier'' @ endl @
     ''  predict                 predict most likely labels'' @ endl @
     ''  predict-prob            predict most likely labels with probabilities'' @ endl @
     ''  skipgram                train a skipgram model'' @ endl @
     ''  cbow                    train a cbow model'' @ endl @
     ''  print-word-vectors      print word vectors given a trained model'' @ endl @
     ''  print-sentence-vectors  print sentence vectors given a trained model'' @ endl @
     ''  print-ngrams            print ngrams given a trained model and word'' @ endl @
     ''  nn                      query for nearest neighbors'' @ endl @
     ''  analogies               query for analogies'' @ endl @
     ''  dump                    dump arguments,dictionary,input/output vectors'' @ endl @
     endl))"

definition printQuantizeUsage :: "('h, unit) proc" where
  "printQuantizeUsage = say (Err (''usage: hornvecs quantize <args>'' @ endl))"

definition printTestUsage :: "('h, unit) proc" where
  "printTestUsage = say (Err (
     ''usage: hornvecs test <model> <test-data> [<k>] [<th>]'' @ endl @ endl @
     ''  <model>      model filename'' @ endl @
     ''  <test-data>  test data filename (if -, read from stdin)'' @ endl @
     ''  <k>          (optional; 1 by default) predict top k labels'' @ endl @
     ''  <th>         (optional; 0.0 by default) probability threshold'' @ endl @
     endl))"

definition printPredictUsage :: "('h, unit) proc" where
  "printPredictUsage = say (Err (
     ''usage: hornvecs predict[-prob] <model> <test-data> [<k>] [<th>]'' @ endl @ endl @
     ''  <model>      model filename'' @ endl @
     ''  <test-data>  test data filename (if -, read from stdin)'' @ endl @
     ''  <k>          (optional; 1 by default) predict top k labels'' @ endl @
     ''  <th>         (optional; 0.0 by default) probability threshold'' @ endl @
     endl))"

definition printPrintWordVectorsUsage :: "('h, unit) proc" where
  "printPrintWordVectorsUsage = say (Err (
     ''usage: hornvecs print-word-vectors <model>'' @ endl @ endl @
     ''  <model>      model filename'' @ endl @
     endl))"

definition printPrintSentenceVectorsUsage :: "('h, unit) proc" where
  "printPrintSentenceVectorsUsage = say (Err (
     ''usage: hornvecs print-sentence-vectors <model>'' @ endl @ endl @
     ''  <model>      model filename'' @ endl @
     endl))"

definition printPrintNgramsUsage :: "('h, unit) proc" where
  "printPrintNgramsUsage = say (Err (
     ''usage: hornvecs print-ngrams <model> <word>'' @ endl @ endl @
     ''  <model>      model filename'' @ endl @
     ''  <word>       word to print'' @ endl @
     endl))"

definition printNNUsage :: "('h, unit) proc" where
  "printNNUsage = say (Out (
     ''usage: hornvecs nn <model> <k>'' @ endl @ endl @
     ''  <model>      model filename'' @ endl @
     ''  <k>          (optional; 10 by default) predict top k labels'' @ endl @
     endl))"

definition printAnalogiesUsage :: "('h, unit) proc" where
  "printAnalogiesUsage = say (Out (
     ''usage: hornvecs analogies <model> <k>'' @ endl @ endl @
     ''  <model>      model filename'' @ endl @
     ''  <k>          (optional; 10 by default) predict top k labels'' @ endl @
     endl))"

definition printDumpUsage :: "('h, unit) proc" where
  "printDumpUsage = say (Out (
     ''usage: hornvecs dump <model> <option>'' @ endl @ endl @
     ''  <model>      model filename'' @ endl @
     ''  <option>     option from args,dict,input,output'' @
     endl))"

subsection \<open>The commands\<close>

text \<open>\<open>quantize\<close>, main.cc lines 86 to 100.\<close>

definition quantize :: "'h world \<Rightarrow> string list \<Rightarrow> ('h, unit) proc" where
  "quantize w args =
     (if length args < 3 then
        bnd printQuantizeUsage (\<lambda>_.
        bnd (say PrintHelp) (\<lambda>_.
        exit_with EXIT_FAILURE))
      else
        bnd (call (ParseArgs args) (args_parseArgs w args)) (\<lambda>a.
        bnd (call (LoadModel (args_output a @ ''.bin'')) (hv_loadModel w (args_output a @ ''.bin''))) (\<lambda>h.
        bnd (call (Quantize h a) (hv_quantize w h a)) (\<lambda>h'.
        bnd (call_void w (SaveModel h')) (\<lambda>_.
        exit_with 0)))))"


text \<open>
  The optional arguments \<open>k\<close> and \<open>th\<close>: the same lines open \<open>test\<close> (131 to 138) and
  \<open>predict\<close> (168 to 175).
\<close>

definition parseKThreshold :: "'h world \<Rightarrow> string list \<Rightarrow> ('h, int \<times> real) proc" where
  "parseKThreshold w args =
     (if length args > 4 then
        bnd (stoi w (args ! 4)) (\<lambda>k.
          if length args = 6 then bnd (stof w (args ! 5)) (\<lambda>threshold. ret (k, threshold))
          else ret (k, 0))
      else ret (1, 0))"

text \<open>\<open>test\<close>, main.cc lines 126 to 161; it returns to \<open>main\<close>.\<close>

definition test :: "'h world \<Rightarrow> string list \<Rightarrow> ('h, unit) proc" where
  "test w args =
     (if length args < 4 \<or> length args > 6 then
        bnd printTestUsage (\<lambda>_. exit_with EXIT_FAILURE)
      else
        bnd (parseKThreshold w args) (\<lambda>(k, threshold).
        bnd (call (LoadModel (args ! 2)) (hv_loadModel w (args ! 2))) (\<lambda>h.
        bnd (if args ! 3 = ''-'' then
               call (Test h (stdin w) k threshold) (hv_test w h (stdin w) k threshold)
             else
               (case files w (args ! 3) of
                  None \<Rightarrow>
                    bnd (say (Err (''Test file cannot be opened!'' @ endl))) (\<lambda>_.
                    exit_with EXIT_FAILURE)
                | Some ifs \<Rightarrow> call (Test h ifs k threshold) (hv_test w h ifs k threshold)))
          (\<lambda>(n, p, r).
        bnd (say (Out (''N'' @ tab @ show_int n @ endl))) (\<lambda>_.
        bnd (say (Out (''P@'' @ show_int k @ tab @ show_real w 3 p @ endl))) (\<lambda>_.
        bnd (say (Out (''R@'' @ show_int k @ tab @ show_real w 3 r @ endl))) (\<lambda>_.
        say (Err (''Number of examples: '' @ show_int n @ endl)))))))))"

text \<open>\<open>predict\<close>, main.cc lines 163 to 195.\<close>

definition predict :: "'h world \<Rightarrow> string list \<Rightarrow> ('h, unit) proc" where
  "predict w args =
     (if length args < 4 \<or> length args > 6 then
        bnd printPredictUsage (\<lambda>_. exit_with EXIT_FAILURE)
      else
        bnd (parseKThreshold w args) (\<lambda>(k, threshold).
        let print_prob = (args ! 1 = ''predict-prob'') in
        bnd (call (LoadModel (args ! 2)) (hv_loadModel w (args ! 2))) (\<lambda>h.
        bnd (if args ! 3 = ''-'' then
               call_void w (Predict h (stdin w) k print_prob threshold)
             else
               (case files w (args ! 3) of
                  None \<Rightarrow>
                    bnd (say (Err (''Input file cannot be opened!'' @ endl))) (\<lambda>_.
                    exit_with EXIT_FAILURE)
                | Some ifs \<Rightarrow> call_void w (Predict h ifs k print_prob threshold)))
          (\<lambda>_.
        exit_with 0))))"

text \<open>\<open>printWordVectors\<close>, main.cc lines 197 to 211, and its loop over the words of the input.\<close>

fun printWordVectors_loop :: "'h world \<Rightarrow> 'h \<Rightarrow> string list \<Rightarrow> ('h, unit) proc" where
  "printWordVectors_loop w h [] = ret ()"
| "printWordVectors_loop w h (word # rest) =
     bnd (call (GetWordVector h word) (hv_getWordVector w h word)) (\<lambda>vec.
     bnd (say (Out (word @ '' '' @ show_vec w vec @ endl))) (\<lambda>_.
     printWordVectors_loop w h rest))"

definition printWordVectors :: "'h world \<Rightarrow> string list \<Rightarrow> ('h, unit) proc" where
  "printWordVectors w args =
     (if length args \<noteq> 3 then
        bnd printPrintWordVectorsUsage (\<lambda>_. exit_with EXIT_FAILURE)
      else
        bnd (call (LoadModel (args ! 2)) (hv_loadModel w (args ! 2))) (\<lambda>h.
        bnd (printWordVectors_loop w h (cin_words (stdin w))) (\<lambda>_.
        exit_with 0)))"

text \<open>
  \<open>printSentenceVectors\<close>, main.cc lines 213 to 227, loops while
  \<open>std::cin.peek() != EOF\<close>; how much of the input one call of \<open>getSentenceVector\<close>
  consumes is the engine's business, so the loop need not end (\<open>None\<close>).
\<close>

partial_function (option) printSentenceVectors_loop ::
  "'h world \<Rightarrow> 'h \<Rightarrow> string \<Rightarrow> 'h event list \<Rightarrow> ('h, unit) proc option" where
  "printSentenceVectors_loop w h cin acc =
     (if cin = [] then Some (acc, Inr ())
      else
        (case hv_getSentenceVector w h cin of
           Inl st \<Rightarrow> Some (acc @ [GetSentenceVector h cin], Inl st)
         | Inr res \<Rightarrow>
             printSentenceVectors_loop w h (snd res)
               (acc @ [GetSentenceVector h cin, Out (show_vec w (fst res) @ endl)])))"

definition printSentenceVectors :: "'h world \<Rightarrow> string list \<Rightarrow> ('h, unit) proc option" where
  "printSentenceVectors w args =
     (if length args \<noteq> 3 then
        Some (bnd printPrintSentenceVectorsUsage (\<lambda>_. exit_with EXIT_FAILURE))
      else
        (case call (LoadModel (args ! 2)) (hv_loadModel w (args ! 2)) of
           (es, Inl st) \<Rightarrow> Some (es, Inl st)
         | (es, Inr h) \<Rightarrow>
             map_option (\<lambda>p. bnd p (\<lambda>_. exit_with 0))
               (printSentenceVectors_loop w h (stdin w) es)))"

text \<open>\<open>printNgrams\<close>, main.cc lines 229 to 238.\<close>

definition printNgrams :: "'h world \<Rightarrow> string list \<Rightarrow> ('h, unit) proc" where
  "printNgrams w args =
     (if length args \<noteq> 4 then
        bnd printPrintNgramsUsage (\<lambda>_. exit_with EXIT_FAILURE)
      else
        bnd (call (LoadModel (args ! 2)) (hv_loadModel w (args ! 2))) (\<lambda>h.
        bnd (call_void w (NgramVectors h (args ! 3))) (\<lambda>_.
        exit_with 0)))"

text \<open>\<open>nn\<close>, main.cc lines 240 to 273, with its loop over the query words and the
  loop that prints the neighbours found.\<close>

fun nn_print :: "'h world \<Rightarrow> (real \<times> string) list \<Rightarrow> ('h, unit) proc" where
  "nn_print w [] = ret ()"
| "nn_print w (pair # results) =
     bnd (say (Out (snd pair @ '' '' @ show_real w 6 (fst pair) @ endl))) (\<lambda>_.
     nn_print w results)"

fun nn_loop :: "'h world \<Rightarrow> 'h \<Rightarrow> int \<Rightarrow> string list \<Rightarrow> ('h, unit) proc" where
  "nn_loop w h k [] = ret ()"
| "nn_loop w h k (queryWord # rest) =
     bnd (call (GetWordVector h queryWord) (hv_getWordVector w h queryWord)) (\<lambda>queryVec.
     bnd (call (FindNN h queryVec k [queryWord]) (hv_findNN w h queryVec k [queryWord]))
       (\<lambda>results.
     bnd (nn_print w results) (\<lambda>_.
     bnd (say (Out ''Query word? '')) (\<lambda>_.
     nn_loop w h k rest))))"

definition nn :: "'h world \<Rightarrow> string list \<Rightarrow> ('h, unit) proc" where
  "nn w args =
     bnd (if length args = 3 then ret 10
          else if length args = 4 then stoi w (args ! 3)
          else bnd printNNUsage (\<lambda>_. exit_with EXIT_FAILURE)) (\<lambda>k.
     bnd (call (LoadModel (args ! 2)) (hv_loadModel w (args ! 2))) (\<lambda>h.
     bnd (say (Err ''Pre-computing word vectors...'')) (\<lambda>_.
     bnd (call_void w (PrecomputeWordVectors h)) (\<lambda>_.
     bnd (say (Err ('' done.'' @ endl))) (\<lambda>_.
     bnd (say (Out ''Query word? '')) (\<lambda>_.
     bnd (nn_loop w h k (cin_words (stdin w))) (\<lambda>_.
     exit_with 0)))))))"

text \<open>\<open>analogies\<close>, main.cc lines 275 to 289.\<close>

definition analogies :: "'h world \<Rightarrow> string list \<Rightarrow> ('h, unit) proc" where
  "analogies w args =
     bnd (if length args = 3 then ret 10
          else if length args = 4 then stoi w (args ! 3)
          else bnd printAnalogiesUsage (\<lambda>_. exit_with EXIT_FAILURE)) (\<lambda>k.
     bnd (call (LoadModel (args ! 2)) (hv_loadModel w (args ! 2))) (\<lambda>h.
     bnd (call_void w (Analogies h k)) (\<lambda>_.
     exit_with 0)))"

text \<open>\<open>train\<close>, main.cc lines 291 to 301; it returns to \<open>main\<close>.\<close>

definition train :: "'h world \<Rightarrow> string list \<Rightarrow> ('h, unit) proc" where
  "train w args =
     bnd (call (ParseArgs args) (args_parseArgs w args)) (\<lambda>a.
     bnd (call (Train a) (hv_train w a)) (\<lambda>h.
     bnd (call_void w (SaveModel h)) (\<lambda>_.
     bnd (call_void w (SaveVectors h)) (\<lambda>_.
     if args_saveOutput a then call_void w (SaveOutput h) else ret ()))))"

text \<open>\<open>dump\<close>, main.cc lines 303 to 334; it returns to \<open>main\<close> unless the option is unknown.\<close>

definition dump :: "'h world \<Rightarrow> string list \<Rightarrow> ('h, unit) proc" where
  "dump w args =
     (if length args < 4 then
        bnd printDumpUsage (\<lambda>_. exit_with EXIT_FAILURE)
      else
        let modelPath = args ! 2; option = args ! 3 in
        bnd (call (LoadModel modelPath) (hv_loadModel w modelPath)) (\<lambda>h.
        if option = ''args'' then say (Out (dump_args w h))
        else if option = ''dict'' then say (Out (dump_dict w h))
        else if option = ''input'' then
          (if hv_isQuant w h then say (Err (''Not supported for quantized models.'' @ endl))
           else say (Out (dump_input w h)))
        else if option = ''output'' then
          (if hv_isQuant w h then say (Err (''Not supported for quantized models.'' @ endl))
           else say (Out (dump_output w h)))
        else bnd printDumpUsage (\<lambda>_. exit_with EXIT_FAILURE)))"

text \<open>
  \<open>main\<close>, main.cc lines 336 to 368. A command that returns to \<open>main\<close> lets it
  \<open>return 0\<close>.
\<close>

fun finish :: "('h, unit) proc \<Rightarrow> 'h event list \<times> status" where
  "finish (es, Inl st) = (es, st)"
| "finish (es, Inr _) = (es, Exited 0)"

definition main :: "'h world \<Rightarrow> string list \<Rightarrow> ('h event list \<times> status) option" where
  "main w args =
     (if length args < 2 then
        Some (finish (bnd printUsage (\<lambda>_. exit_with EXIT_FAILURE)))
      else
        let command = args ! 1 in
        if command = ''skipgram'' \<or> command = ''cbow'' \<or> command = ''supervised'' then
          Some (finish (train w args))
        else if command = ''test'' then Some (finish (test w args))
        else if command = ''quantize'' then Some (finish (quantize w args))
        else if command = ''print-word-vectors'' then Some (finish (printWordVectors w args))
        else if command = ''print-sentence-vectors'' then
          map_option finish (printSentenceVectors w args)
        else if command = ''print-ngrams'' then Some (finish (printNgrams w args))
        else if command = ''nn'' then Some (finish (nn w args))
        else if command = ''analogies'' then Some (finish (analogies w args))
        else if command = ''predict'' \<or> command = ''predict-prob'' then
          Some (finish (predict w args))
        else if command = ''dump'' then Some (finish (dump w args))
        else Some (finish (bnd printUsage (\<lambda>_. exit_with EXIT_FAILURE))))"




text \<open>Everything main.cc itself wrote to \<open>std::cout\<close>, in order.\<close>

fun out_text :: "'h event \<Rightarrow> string" where
  "out_text (Out s) = s"
| "out_text _ = []"

definition stdout_text :: "'h event list \<Rightarrow> string" where
  "stdout_text es = concat (map out_text es)"





section \<open>The engine, as the specification describes it\<close>

text \<open>
  main.cc only calls the engine; the classes behind hornvecs.h and args.h (dictionary,
  matrices, model, trainer, serializer) are not among the sources. The definitions of
  this section follow the specification's description of them.
\<close>

text \<open>
  Modelled from the spec: the error taxonomy of section 7, and the out-of-range access to a
  matrix row that the missing \<open>Matrix\<close> class cannot serve.
\<close>

datatype error = ConfigurationError | IOError | FormatError | DataError | OutOfRange


subsection \<open>Dictionary\<close>

text \<open>
  Modelled from the spec: the token entry of the data model, \<open>{string form, integer id,
  kind (word|label), corpus count}\<close>; the class \<open>Dictionary\<close> is missing. The id of an
  entry is its position.
\<close>

datatype entry_type = WordEntry | LabelEntry

record entry =
  entry_word :: string
  entry_count :: nat
  entry_type :: entry_type

text \<open>
  Modelled from the spec: the state of the missing class \<open>Dictionary\<close>: the entries in
  discovery order (sorted once built), the number of tokens of the corpus seen by
  \<open>addToken\<close>, and the table of discard probabilities that \<open>build\<close> computes.
\<close>

record dictionary =
  dict_entries :: "entry list"
  dict_ntokens :: nat
  dict_pdiscard :: "real list"

text \<open>
  Modelled from the spec: the raw counts that the missing \<open>Dictionary::addToken\<close>
  accumulates; a token not seen before is appended, so the list keeps discovery order.
\<close>

fun count_token :: "string \<Rightarrow> entry_type \<Rightarrow> entry list \<Rightarrow> entry list" where
  "count_token tok ty [] = [\<lparr>entry_word = tok, entry_count = 1, entry_type = ty\<rparr>]"
| "count_token tok ty (e # es) =
     (if entry_word e = tok then e\<lparr>entry_count := entry_count e + 1\<rparr> # es
      else e # count_token tok ty es)"

text \<open>
  Modelled from the spec: the missing \<open>Dictionary::addToken\<close>, "accumulates raw counts
  during a first corpus pass"; a token is a label when it starts with the label prefix.
\<close>

definition addToken :: "string \<Rightarrow> dictionary \<Rightarrow> string \<Rightarrow> dictionary" where
  "addToken label d raw_token =
     d\<lparr>dict_entries :=
          count_token raw_token (if prefix label raw_token then LabelEntry else WordEntry)
            (dict_entries d),
       dict_ntokens := dict_ntokens d + 1\<rparr>"

text \<open>
  Modelled from the spec: the discard probability of the missing \<open>Dictionary::build\<close>,
  \<open>p(w) = sqrt(t/f(w)) + t/f(w)\<close>, clamped to \<open>[0,1]\<close>.
\<close>

definition discard_prob :: "real \<Rightarrow> real \<Rightarrow> real" where
  "discard_prob t f = min 1 (max 0 (sqrt (t / f) + t / f))"

text \<open>
  Modelled from the spec: the corpus frequency \<open>f(w)\<close> of an entry, its count over the
  number of tokens of the corpus.
\<close>

definition frequency :: "dictionary \<Rightarrow> entry \<Rightarrow> real" where
  "frequency d e = real (entry_count e) / real (dict_ntokens d)"

text \<open>
  Modelled from the spec: the missing \<open>Dictionary::build\<close>: "sorts by count, discards
  below-threshold entries, computes discard probabilities"; the order is descending by
  count with ties in discovery order (the sort is stable), the thresholds are \<open>minCount\<close>
  for words and \<open>minCountLabel\<close> for labels. The subword table is left out.
\<close>

definition build :: "nat \<Rightarrow> nat \<Rightarrow> real \<Rightarrow> dictionary \<Rightarrow> dictionary" where
  "build minCount minCountLabel t d =
     (let sorted = sort_key (\<lambda>e. - int (entry_count e)) (dict_entries d);
          kept = filter (\<lambda>e. (if entry_type e = WordEntry then minCount else minCountLabel)
                              \<le> entry_count e) sorted
      in d\<lparr>dict_entries := kept,
            dict_pdiscard := map (\<lambda>e. discard_prob t (frequency d e)) kept\<rparr>)"

subsection \<open>Learning rate\<close>

text \<open>
  Modelled from the spec: the learning rate of the missing trainer loop, "recomputed ... as
  \<open>lr0 * (1 - processedTokens/totalTokensTarget)\<close>, clamped to not go negative". The
  floating-point type of the source is read as the real numbers.
\<close>

definition learning_rate :: "real \<Rightarrow> nat \<Rightarrow> nat \<Rightarrow> real" where
  "learning_rate lr0 processedTokens totalTokensTarget =
     max 0 (lr0 * (1 - real processedTokens / real totalTokensTarget))"

text \<open>
  Modelled from the spec: the rates of one single-threaded run of the missing trainer loop.
  The rate is recomputed from the token counter, which starts at \<open>processedTokens\<close> and
  grows by the number of tokens handled between two recomputations.
\<close>

fun learning_rates :: "real \<Rightarrow> nat \<Rightarrow> nat \<Rightarrow> nat list \<Rightarrow> real list" where
  "learning_rates lr0 totalTokensTarget processedTokens [] = []"
| "learning_rates lr0 totalTokensTarget processedTokens (n # ns) =
     learning_rate lr0 processedTokens totalTokensTarget
       # learning_rates lr0 totalTokensTarget (processedTokens + n) ns"

subsection \<open>Model\<close>

text \<open>Modelled from the spec: the loss kinds, \<open>loss\<close> (\<open>ns\<close>|\<open>hs\<close>|\<open>softmax\<close>).\<close>

datatype loss_name = Loss_hs | Loss_ns | Loss_softmax

text \<open>Modelled from the spec: the modes, \<open>skipgram\<close>|\<open>cbow\<close>|\<open>supervised\<close>.\<close>

datatype model_name = Cbow | Skipgram | Supervised

text \<open>
  Modelled from the spec: the hyperparameters bundle ("dimension, window size, learning
  rate, epoch count, loss kind, n-gram bounds, etc."), with the mode and the bucket
  count that size the matrices; the class \<open>Args\<close> is missing.
\<close>

record hyperparameters =
  hp_dim :: nat
  hp_ws :: nat
  hp_lr :: real
  hp_epoch :: nat
  hp_loss :: loss_name
  hp_model :: model_name
  hp_minn :: nat
  hp_maxn :: nat
  hp_bucket :: nat

text \<open>
  Modelled from the spec: the trained artifact, "dictionary + matrices + hyperparameters",
  with the Huffman-tree arrays and the quantization flag of the binary layout; a matrix is
  the list of its rows. The class \<open>HornVecs\<close> is missing.
\<close>

record model =
  m_args :: hyperparameters
  m_dict :: "entry list"
  m_huffman :: "int list"
  m_input :: "real list list"
  m_output :: "real list list"
  m_quant :: bool

text \<open>
  Modelled from the spec: the vocabulary, the word entries of the dictionary; a word's id is
  its position there ("buckets and word ids share one contiguous id space offset by
  vocabulary size").
\<close>

definition vocabulary :: "model \<Rightarrow> string list" where
  "vocabulary m = map entry_word (filter (\<lambda>e. entry_type e = WordEntry) (m_dict m))"

text \<open>Modelled from the spec: the labels of the dictionary; a class id is a position here.\<close>

definition labels :: "model \<Rightarrow> string list" where
  "labels m = map entry_word (filter (\<lambda>e. entry_type e = LabelEntry) (m_dict m))"

text \<open>Modelled from the spec: the id of a word of the vocabulary, none for any other word.\<close>

fun index_of :: "'a \<Rightarrow> 'a list \<Rightarrow> nat option" where
  "index_of x [] = None"
| "index_of x (y # ys) = (if x = y then Some 0 else map_option Suc (index_of x ys))"

text \<open>
  Modelled from the spec: the contiguous character n-grams of a word, "length
  \<open>minn..maxn\<close>, inclusive, derived from the word padded with boundary markers
  (\<open><word>\<close>)", ordered by start position and then by length.
\<close>

definition ngrams :: "nat \<Rightarrow> nat \<Rightarrow> string \<Rightarrow> string list" where
  "ngrams minn maxn w =
     (let padded = ''<'' @ w @ ''>'' in
      concat (map (\<lambda>i. map (\<lambda>n. take n (drop i padded))
                          (filter (\<lambda>n. i + n \<le> length padded) [minn..<Suc maxn]))
                [0..<length padded]))"

text \<open>
  Modelled from the spec: what the specification leaves open about subwords: the hash
  function ("cyclic polynomial (FNV-like)") and the rule for the non-adjacent
  (skip-pattern) character subsequences, "an open design parameter".
\<close>

record subword_policy =
  sw_hash :: "string \<Rightarrow> nat"
  sw_skip :: "string \<Rightarrow> string list"

text \<open>
  Modelled from the spec: the missing \<open>getSubwords\<close>: the word's own id when it is in the
  vocabulary, then one bucket row for each n-gram, "hashed into a fixed-size bucket space of
  size \<open>bucket\<close>"; there is none when \<open>maxn = 0\<close> (the n-gram table is skipped) and none
  when the bucket space is empty.
\<close>

definition getSubwords :: "subword_policy \<Rightarrow> model \<Rightarrow> string \<Rightarrow> nat list" where
  "getSubwords pol m w =
     (let own = (case index_of w (vocabulary m) of None \<Rightarrow> [] | Some i \<Rightarrow> [i]);
          grams = (if hp_maxn (m_args m) = 0 \<or> hp_bucket (m_args m) = 0 then []
                   else ngrams (hp_minn (m_args m)) (hp_maxn (m_args m)) w @ sw_skip pol w)
      in own @ map (\<lambda>g. length (vocabulary m) + sw_hash pol g mod hp_bucket (m_args m)) grams)"

text \<open>Modelled from the spec: rows of a matrix by index; an index past the last row is an error.\<close>

fun rows_at :: "real list list \<Rightarrow> nat list \<Rightarrow> error + real list list" where
  "rows_at mat [] = Inr []"
| "rows_at mat (i # is) =
     (if i < length mat then
        (case rows_at mat is of Inl e \<Rightarrow> Inl e | Inr rs \<Rightarrow> Inr (mat ! i # rs))
      else Inl OutOfRange)"

text \<open>Modelled from the spec: the sum of rows, componentwise, in dimension \<open>dim\<close>.\<close>

definition vec_sum :: "nat \<Rightarrow> real list list \<Rightarrow> real list" where
  "vec_sum d rows = foldr (map2 (+)) rows (replicate d 0)"

text \<open>
  Modelled from the spec: the missing \<open>getWordVector\<close>, "mean of the word's own input row
  and all its subword rows"; a word outside the vocabulary has subword rows only. Where
  there is no row at all (a word outside the vocabulary of a model without n-grams) there
  is no mean: the vector is then the zero vector, to which the spec lets the sentence
  vector of unknown words degenerate.
\<close>

definition getWordVector :: "subword_policy \<Rightarrow> model \<Rightarrow> string \<Rightarrow> error + real list" where
  "getWordVector pol m w =
     (case rows_at (m_input m) (getSubwords pol m w) of
        Inl e \<Rightarrow> Inl e
      | Inr rows \<Rightarrow>
          Inr (if rows = [] then replicate (hp_dim (m_args m)) 0
               else map (\<lambda>x. x / real (length rows)) (vec_sum (hp_dim (m_args m)) rows)))"

text \<open>
  Modelled from the spec: the invariant of the input matrix in the data model, "rows =
  vocabulary size + bucket count; each row is a \<open>dim\<close>-length embedding".
\<close>

definition loaded :: "model \<Rightarrow> bool" where
  "loaded m =
     (length (m_input m) = length (vocabulary m) + hp_bucket (m_args m)
      \<and> list_all (\<lambda>row. length row = hp_dim (m_args m)) (m_input m))"

text \<open>
  Modelled from the spec: a row of the text vectors file, "token then \<open>dim\<close> floating-point
  values, space-separated"; \<open>shw\<close> prints one value.
\<close>

definition vector_row :: "(real \<Rightarrow> string) \<Rightarrow> string \<Rightarrow> real list \<Rightarrow> string" where
  "vector_row shw tok vec = tok @ concat (map (\<lambda>x. '' '' @ shw x) vec)"

text \<open>
  Modelled from the spec: the rows that the missing \<open>saveVectors\<close> writes, "one row per
  vocabulary entry", each with the vector of its word.
\<close>

fun vector_rows ::
  "(real \<Rightarrow> string) \<Rightarrow> subword_policy \<Rightarrow> model \<Rightarrow> string list \<Rightarrow> error + string list" where
  "vector_rows shw pol m [] = Inr []"
| "vector_rows shw pol m (tok # toks) =
     (case getWordVector pol m tok of
        Inl e \<Rightarrow> Inl e
      | Inr vec \<Rightarrow>
          (case vector_rows shw pol m toks of
             Inl e \<Rightarrow> Inl e
           | Inr rows \<Rightarrow> Inr (vector_row shw tok vec # rows)))"

text \<open>Modelled from the spec: the content of the text vectors file of the missing \<open>saveVectors\<close>.\<close>

definition saveVectors :: "(real \<Rightarrow> string) \<Rightarrow> subword_policy \<Rightarrow> model \<Rightarrow> error + string list" where
  "saveVectors shw pol m = vector_rows shw pol m (vocabulary m)"


subsection \<open>Prediction and evaluation\<close>

text \<open>
  Modelled from the spec: the missing \<open>predict(text, k, threshold)\<close>, "returns the top-\<open>k\<close>
  labels with score \<ge> \<open>threshold\<close>, sorted by descending score with ties broken by lower
  class id". The class scores of a text (the loss strategy's scoring path) are the parameter
  \<open>score\<close>; the sort is stable.
\<close>

definition model_predict ::
  "(string list \<Rightarrow> nat \<Rightarrow> real) \<Rightarrow> model \<Rightarrow> string list \<Rightarrow> nat \<Rightarrow> real \<Rightarrow> nat list" where
  "model_predict score m text k threshold =
     take k (sort_key (\<lambda>c. - score text c)
               (filter (\<lambda>c. threshold \<le> score text c) [0..<length (labels m)]))"

text \<open>
  Modelled from the spec: the counts behind precision and recall at \<open>k\<close> over a labelled
  test set: the examples, the predicted labels that are among an example's own labels, the
  predicted labels, and the examples' labels. An example is its text and its labels
  (class ids).
\<close>

fun tally ::
  "(string list \<Rightarrow> nat \<Rightarrow> real) \<Rightarrow> model \<Rightarrow> nat \<Rightarrow> real \<Rightarrow> (string list \<times> nat list) list
     \<Rightarrow> nat \<times> nat \<times> nat \<times> nat" where
  "tally score m k threshold [] = (0, 0, 0, 0)"
| "tally score m k threshold (ex # exs) =
     (let predictions = model_predict score m (fst ex) k threshold;
          (nexamples, hits, npredictions, nlabels) = tally score m k threshold exs
      in (nexamples + 1,
          hits + length (filter (\<lambda>c. c \<in> set (snd ex)) predictions),
          npredictions + length predictions,
          nlabels + length (snd ex)))"

text \<open>
  Modelled from the spec: the missing \<open>HornVecs::test\<close>, "compute precision@k/recall@k
  against a labeled test set": the number of examples; precision at \<open>k\<close>, the correct labels
  among the \<open>k\<close> best of an example over \<open>k\<close>, averaged over the examples; and recall at
  \<open>k\<close>, the correct labels among the \<open>k\<close> best over all labels of the examples.
\<close>

definition model_test ::
  "(string list \<Rightarrow> nat \<Rightarrow> real) \<Rightarrow> model \<Rightarrow> (string list \<times> nat list) list \<Rightarrow> nat \<Rightarrow> real
     \<Rightarrow> nat \<times> real \<times> real" where
  "model_test score m exs k threshold =
     (let (nexamples, hits, npredictions, nlabels) = tally score m k threshold exs
      in (nexamples, real hits / real (k * nexamples), real hits / real nlabels))"

subsection \<open>Serializer\<close>

text \<open>
  Modelled from the spec: the binary stream of the missing serializer, as the sequence of its
  fields ("fixed field order"); the encoding of a field in bytes is not described.
\<close>

datatype field = IntField int | StringField string | FloatField real | BoolField bool

text \<open>
  Modelled from the spec: a step of \<open>load\<close>: it takes fields from the front of the stream
  and returns a value and the rest, or fails.
\<close>

type_synonym 'a reader = "field list \<Rightarrow> error + ('a \<times> field list)"

text \<open>Modelled from the spec: reading one field; a missing or different field is a format error.\<close>

definition read_int :: "int reader" where
  "read_int s = (case s of IntField i # r \<Rightarrow> Inr (i, r) | _ \<Rightarrow> Inl FormatError)"

text \<open>Modelled from the spec: reading a count or size, an integer field that is not negative.\<close>

definition read_nat :: "nat reader" where
  "read_nat s =
     (case s of IntField i # r \<Rightarrow> if 0 \<le> i then Inr (nat i, r) else Inl FormatError
      | _ \<Rightarrow> Inl FormatError)"

text \<open>Modelled from the spec: reading a string field ("each entry's string").\<close>

definition read_string :: "string reader" where
  "read_string s = (case s of StringField x # r \<Rightarrow> Inr (x, r) | _ \<Rightarrow> Inl FormatError)"

text \<open>Modelled from the spec: reading one raw float.\<close>

definition read_float :: "real reader" where
  "read_float s = (case s of FloatField x # r \<Rightarrow> Inr (x, r) | _ \<Rightarrow> Inl FormatError)"

text \<open>Modelled from the spec: reading the quantization flag.\<close>

definition read_bool :: "bool reader" where
  "read_bool s = (case s of BoolField b # r \<Rightarrow> Inr (b, r) | _ \<Rightarrow> Inl FormatError)"

text \<open>Modelled from the spec: one reader after another, stopping at the first error.\<close>

definition rbind :: "'a reader \<Rightarrow> ('a \<Rightarrow> 'b reader) \<Rightarrow> 'b reader" where
  "rbind p f s = (case p s of Inl e \<Rightarrow> Inl e | Inr (x, r) \<Rightarrow> f x r)"

text \<open>Modelled from the spec: a reader that takes nothing from the stream.\<close>

definition rreturn :: "'a \<Rightarrow> 'a reader" where
  "rreturn x s = Inr (x, s)"

text \<open>Modelled from the spec: the format error of \<open>load\<close>.\<close>

definition rfail :: "'a reader" where
  "rfail s = Inl FormatError"

text \<open>Modelled from the spec: \<open>n\<close> items in a row (dictionary entries, matrix cells).\<close>

fun read_n :: "nat \<Rightarrow> 'a reader \<Rightarrow> 'a list reader" where
  "read_n 0 p = rreturn []"
| "read_n (Suc n) p = rbind p (\<lambda>x. rbind (read_n n p) (\<lambda>xs. rreturn (x # xs)))"

text \<open>Modelled from the spec: the magic and version numbers that \<open>load\<close> accepts.\<close>

record format =
  fmt_magic :: int
  fmt_version :: int

text \<open>Modelled from the spec: "\<open>load\<close> validates magic/version and fails with a format error on mismatch".\<close>

definition read_header :: "format \<Rightarrow> unit reader" where
  "read_header fmt =
     rbind read_int (\<lambda>magic.
     rbind read_int (\<lambda>version.
     if magic = fmt_magic fmt \<and> version = fmt_version fmt then rreturn () else rfail))"

text \<open>Modelled from the spec: the loss kind of the hyperparameter struct, as a code.\<close>

definition read_loss :: "loss_name reader" where
  "read_loss =
     rbind read_int (\<lambda>c.
     if c = 1 then rreturn Loss_hs
     else if c = 2 then rreturn Loss_ns
     else if c = 3 then rreturn Loss_softmax
     else rfail)"

text \<open>Modelled from the spec: the mode of the hyperparameter struct, as a code.\<close>

definition read_model_name :: "model_name reader" where
  "read_model_name =
     rbind read_int (\<lambda>c.
     if c = 1 then rreturn Cbow
     else if c = 2 then rreturn Skipgram
     else if c = 3 then rreturn Supervised
     else rfail)"

text \<open>Modelled from the spec: the hyperparameter struct of the binary layout.\<close>

definition read_args :: "hyperparameters reader" where
  "read_args =
     rbind read_nat (\<lambda>dim.
     rbind read_nat (\<lambda>ws.
     rbind read_float (\<lambda>lr.
     rbind read_nat (\<lambda>epoch.
     rbind read_loss (\<lambda>loss.
     rbind read_model_name (\<lambda>model.
     rbind read_nat (\<lambda>minn.
     rbind read_nat (\<lambda>maxn.
     rbind read_nat (\<lambda>bucket.
     rreturn \<lparr>hp_dim = dim, hp_ws = ws, hp_lr = lr, hp_epoch = epoch, hp_loss = loss,
              hp_model = model, hp_minn = minn, hp_maxn = maxn, hp_bucket = bucket\<rparr>)))))))))"

text \<open>Modelled from the spec: one dictionary entry of the binary layout, "string/count/kind".\<close>

definition read_entry :: "entry reader" where
  "read_entry =
     rbind read_string (\<lambda>w.
     rbind read_nat (\<lambda>c.
     rbind read_int (\<lambda>k.
     if k = 0 then rreturn \<lparr>entry_word = w, entry_count = c, entry_type = WordEntry\<rparr>
     else if k = 1 then rreturn \<lparr>entry_word = w, entry_count = c, entry_type = LabelEntry\<rparr>
     else rfail)))"

text \<open>Modelled from the spec: the dictionary of the binary layout, "size, then each entry".\<close>

definition read_dict :: "entry list reader" where
  "read_dict = rbind read_nat (\<lambda>n. read_n n read_entry)"

text \<open>
  Modelled from the spec: the "Huffman-tree auxiliary arrays (hierarchical softmax only)" of
  the binary layout, read as a size and that many integers.
\<close>

definition read_huffman :: "loss_name \<Rightarrow> int list reader" where
  "read_huffman loss =
     (if loss = Loss_hs then rbind read_nat (\<lambda>n. read_n n read_int) else rreturn [])"

text \<open>Modelled from the spec: a matrix of the binary layout, its raw floats row by row.\<close>

definition read_matrix :: "nat \<Rightarrow> nat \<Rightarrow> real list list reader" where
  "read_matrix rows cols = read_n rows (read_n cols read_float)"

text \<open>
  Modelled from the spec: the binary layout of the missing serializer: "magic/version int,
  hyperparameter struct, dictionary, Huffman-tree auxiliary arrays (hierarchical softmax
  only), input matrix raw floats, output matrix raw floats, quantization flag". The input
  matrix has a row for each vocabulary entry and each bucket, the output matrix a row for
  each label (supervised) or each word.
\<close>

definition read_model :: "format \<Rightarrow> model reader" where
  "read_model fmt =
     rbind (read_header fmt) (\<lambda>_.
     rbind read_args (\<lambda>a.
     rbind read_dict (\<lambda>d.
     rbind (read_huffman (hp_loss a)) (\<lambda>tree.
     rbind (read_matrix
              (length (filter (\<lambda>e. entry_type e = WordEntry) d) + hp_bucket a) (hp_dim a))
       (\<lambda>inp.
     rbind (read_matrix
              (length (filter (\<lambda>e. entry_type e =
                                     (if hp_model a = Supervised then LabelEntry else WordEntry)) d))
              (hp_dim a))
       (\<lambda>outp.
     rbind read_bool (\<lambda>q.
     rreturn \<lparr>m_args = a, m_dict = d, m_huffman = tree, m_input = inp, m_output = outp,
              m_quant = q\<rparr>)))))))"

text \<open>Modelled from the spec: \<open>load\<close> of the missing serializer, into a fresh instance.\<close>

definition load :: "format \<Rightarrow> field list \<Rightarrow> error + model" where
  "load fmt s = (case read_model fmt s of Inl e \<Rightarrow> Inl e | Inr (m, rest) \<Rightarrow> Inr m)"

text \<open>
  Modelled from the spec: the missing \<open>loadModel\<close> on an object that holds the model
  \<open>current\<close>: "load into a fresh instance and swap". The result is the model the object
  holds afterwards, and the error if the load failed.
\<close>

definition loadModel :: "format \<Rightarrow> field list \<Rightarrow> model \<Rightarrow> model \<times> (error + unit)" where
  "loadModel fmt s current =
     (case load fmt s of Inl e \<Rightarrow> (current, Inl e) | Inr fresh \<Rightarrow> (fresh, Inr ()))"


text \<open>
  A reader is exact when its only error is the format error and, where it succeeds, it
  reads a definite part \<open>u\<close> of the stream: it gives the same result whatever follows
  \<open>u\<close>, and fails with a format error on a stream that ends inside \<open>u\<close>.
\<close>

definition exact :: "'a reader \<Rightarrow> bool" where
  "exact P \<longleftrightarrow>
     (\<forall>s. (\<forall>e. P s = Inl e \<longrightarrow> e = FormatError)
          \<and> (\<forall>x r. P s = Inr (x, r) \<longrightarrow>
                (\<exists>u. s = u @ r \<and> (\<forall>t. P (u @ t) = Inr (x, t))
                     \<and> (\<forall>p. strict_prefix p u \<longrightarrow> P p = Inl FormatError))))"

section \<open>Sample data\<close>

text \<open>
  A small world for concrete runs: a full-precision model in \<open>model.bin\<close>, its quantized
  form in \<open>model.ftz\<close>, one readable test file, and an engine whose calls all return.
\<close>

datatype sample_model = FullModel | QuantModel

definition sample_world :: "sample_model world" where
  "sample_world = \<lparr>
     stdin = ''great film'',
     files = [''test.txt'' \<mapsto> ''great movie __label__pos''],
     std_stoi = (\<lambda>s. if s = ''1'' then Some 1 else if s = ''5'' then Some 5 else None),
     std_stof = (\<lambda>s. if s = ''0.5'' then Some (1 / 2) else None),
     show_real = (\<lambda>p x. if x = 1 then ''1'' else if x = 0 then ''0'' else ''0.5''),
     show_vec = (\<lambda>v. concat (map (\<lambda>x. (if x = 0 then ''0'' else ''0.5'') @ '' '') v)),
     args_parseArgs = (\<lambda>args.
        if length args = 4 \<and> args ! 2 = ''-output''
        then Inr \<lparr>args_output = args ! 3, args_saveOutput = False\<rparr>
        else if length args = 6 \<and> args ! 2 = ''-output'' \<and> args ! 4 = ''-saveOutput''
        then Inr \<lparr>args_output = args ! 3, args_saveOutput = (args ! 5 = ''1'')\<rparr>
        else Inl (Exited 1)),
     hv_loadModel = (\<lambda>p. if p = ''model.bin'' then Inr FullModel
                          else if p = ''model.ftz'' then Inr QuantModel else Inl Aborted),
     hv_quantize = (\<lambda>h a. Inr QuantModel),
     hv_train = (\<lambda>a. Inr FullModel),
     hv_test = (\<lambda>h txt k th. Inr (1, 1, 1)),
     hv_isQuant = (\<lambda>h. h = QuantModel),
     hv_getWordVector = (\<lambda>h word. Inr [0, 1 / 2]),
     hv_getSentenceVector = (\<lambda>h cin. Inr ([0, 1 / 2], [])),
     hv_findNN = (\<lambda>h v k ban. Inr []),
     dump_args = (\<lambda>h. ''dim 2''),
     dump_dict = (\<lambda>h. ''1 great''),
     dump_input = (\<lambda>h. if h = FullModel then ''0 0.5'' else []),
     dump_output = (\<lambda>h. if h = FullModel then ''0.5 0'' else []),
     fails = (\<lambda>e. None),
     engine_stderr = (\<lambda>e. []),
     io_error = (\<lambda>e. None) \<rparr>"


text \<open>A corpus of four tokens, counted by \<open>addToken\<close>.\<close>

definition sample_dictionary :: dictionary where
  "sample_dictionary =
     foldl (addToken ''__label__'') \<lparr>dict_entries = [], dict_ntokens = 0, dict_pdiscard = []\<rparr>
       [''a'', ''b'', ''a'', ''a'']"

text \<open>
  A small supervised model: one word, two labels, two buckets, vectors of dimension 2 and
  n-grams of length 3; and a subword policy for it.
\<close>

definition toy_model :: model where
  "toy_model = \<lparr>
     m_args = \<lparr>hp_dim = 2, hp_ws = 5, hp_lr = 1 / 10, hp_epoch = 1, hp_loss = Loss_softmax,
               hp_model = Supervised, hp_minn = 3, hp_maxn = 3, hp_bucket = 2\<rparr>,
     m_dict = [\<lparr>entry_word = ''ab'', entry_count = 2, entry_type = WordEntry\<rparr>,
               \<lparr>entry_word = ''__label__pos'', entry_count = 1, entry_type = LabelEntry\<rparr>,
               \<lparr>entry_word = ''__label__neg'', entry_count = 1, entry_type = LabelEntry\<rparr>],
     m_huffman = [],
     m_input = [[1, 0], [0, 1], [1, 1]],
     m_output = [[1, 0], [0, 1]],
     m_quant = False\<rparr>"

definition toy_policy :: subword_policy where
  "toy_policy = \<lparr>sw_hash = (\<lambda>g. if g = ''<ab'' then 0 else 1), sw_skip = (\<lambda>w. [])\<rparr>"


text \<open>
  Class scores for the small model and a test set of two examples with one label each: the
  first is scored 0.95 for its own label, the second 0.6.
\<close>

definition toy_score :: "string list \<Rightarrow> nat \<Rightarrow> real" where
  "toy_score text c =
     (if text = [''ab''] then (if c = 0 then 19 / 20 else 1 / 20)
      else (if c = 0 then 3 / 5 else 2 / 5))"

definition toy_examples :: "(string list \<times> nat list) list" where
  "toy_examples = [([''ab''], [0]), ([''b''], [0])]"

text \<open>
  A model file of 21 fields (one word, one label, dimension 1, no buckets) for a format
  with magic number 1000 and version 1, and the model it holds.
\<close>

definition sample_format :: format where
  "sample_format = \<lparr>fmt_magic = 1000, fmt_version = 1\<rparr>"

definition sample_stream :: "field list" where
  "sample_stream =
     [IntField 1000, IntField 1,
      IntField 1, IntField 5, FloatField (1 / 10), IntField 1, IntField 3, IntField 3,
      IntField 0, IntField 0, IntField 0,
      IntField 2, StringField ''a'', IntField 2, IntField 0,
      StringField ''__label__x'', IntField 1, IntField 1,
      FloatField (1 / 2), FloatField (1 / 4), BoolField False]"

definition sample_loaded :: model where
  "sample_loaded = \<lparr>
     m_args = \<lparr>hp_dim = 1, hp_ws = 5, hp_lr = 1 / 10, hp_epoch = 1, hp_loss = Loss_softmax,
               hp_model = Supervised, hp_minn = 0, hp_maxn = 0, hp_bucket = 0\<rparr>,
     m_dict = [\<lparr>entry_word = ''a'', entry_count = 2, entry_type = WordEntry\<rparr>,
               \<lparr>entry_word = ''__label__x'', entry_count = 1, entry_type = LabelEntry\<rparr>],
     m_huffman = [],
     m_input = [[1 / 2]],
     m_output = [[1 / 4]],
     m_quant = False\<rparr>"

section \<open>Properties of the command-line front end\<close>

lemma bnd_unfold:
  "bnd (es, r) f =
     (case r of Inl st \<Rightarrow> (es, Inl st) | Inr x \<Rightarrow> (es @ fst (f x), snd (f x)))"
  by (cases r) (auto split: prod.splits)

lemmas proc_defs =
  bnd_unfold ret_def say_def exit_with_def throw_def call_def call_void_def stoi_def stof_def

lemma parseKThreshold_silent: "fst (parseKThreshold w args) = []"
  by (auto simp: parseKThreshold_def proc_defs split: option.splits)

lemma show_int_1: "show_int 1 = ''1''"
  by code_simp

lemma show_int_5: "show_int 5 = ''5''"
  by code_simp

text \<open>
  C10: the \<open>quantize\<close> command loads the model from the \<open>output\<close> path of the parsed
  arguments with \<open>.bin\<close> appended, and from no other path; with fewer than three
  command-line words it prints its usage line and the help, and exits with
  \<open>EXIT_FAILURE\<close> without loading anything.
\<close>

theorem quantize_loads_output_bin:
  "(length args < 3 \<longrightarrow>
      quantize w args =
        ([Err (''usage: hornvecs quantize <args>'' @ endl), PrintHelp], Inl (Exited EXIT_FAILURE))
      \<and> EXIT_FAILURE \<noteq> 0)
   \<and> (\<forall>p. LoadModel p \<in> set (fst (quantize w args)) \<longrightarrow>
          3 \<le> length args \<and> (\<exists>a. args_parseArgs w args = Inr a \<and> p = args_output a @ ''.bin''))
   \<and> (\<forall>a. 3 \<le> length args \<and> args_parseArgs w args = Inr a \<longrightarrow>
          take 2 (fst (quantize w args)) = [ParseArgs args, LoadModel (args_output a @ ''.bin'')])
   \<and> (2 \<le> length args \<and> args ! 1 = ''quantize'' \<longrightarrow>
          main w args = Some (finish (quantize w args)))"
  by (auto simp: quantize_def main_def printQuantizeUsage_def EXIT_FAILURE_def proc_defs
      split: sum.splits option.splits prod.splits)

theorem quantize_loads_output_bin_witness:
  "quantize sample_world [''hornvecs'', ''quantize''] =
     ([Err (''usage: hornvecs quantize <args>'' @ endl), PrintHelp], Inl (Exited 1))
   \<and> take 2 (fst (quantize sample_world [''hornvecs'', ''quantize'', ''-output'', ''model''])) =
       [ParseArgs [''hornvecs'', ''quantize'', ''-output'', ''model''], LoadModel ''model.bin'']
   \<and> main sample_world [''hornvecs'', ''quantize'', ''-output'', ''model''] =
       Some ([ParseArgs [''hornvecs'', ''quantize'', ''-output'', ''model''],
              LoadModel ''model.bin'',
              Quantize FullModel \<lparr>args_output = ''model'', args_saveOutput = False\<rparr>,
              SaveModel QuantModel], Exited 0)"
  using quantize_loads_output_bin [of "[''hornvecs'', ''quantize'']" sample_world]
    quantize_loads_output_bin [of "[''hornvecs'', ''quantize'', ''-output'', ''model'']" sample_world]
  by (simp add: sample_world_def quantize_def EXIT_FAILURE_def proc_defs)

text \<open>
  C9: in \<open>test\<close> and \<open>predict\<close> (also run as \<open>predict-prob\<close>), with four command-line
  words \<open>k\<close> is 1 and the threshold 0.0; with five words the threshold is still 0.0 and
  \<open>k\<close> is the fifth word; the engine receives a threshold other than 0.0 only when there
  are exactly six words, and then \<open>k\<close> is the fifth word and the threshold the sixth.
\<close>

theorem k_and_threshold_defaults:
  "(length args = 4 \<longrightarrow> parseKThreshold w args = ([], Inr (1, 0)))
   \<and> (length args = 5 \<longrightarrow>
        (\<forall>k th. snd (parseKThreshold w args) = Inr (k, th) \<longrightarrow>
           th = 0 \<and> std_stoi w (args ! 4) = Some k))
   \<and> (\<forall>k th. snd (parseKThreshold w args) = Inr (k, th) \<and> th \<noteq> 0 \<longrightarrow>
        length args = 6 \<and> std_stoi w (args ! 4) = Some k \<and> std_stof w (args ! 5) = Some th)
   \<and> (\<forall>h txt k th. Test h txt k th \<in> set (fst (test w args)) \<longrightarrow>
        4 \<le> length args \<and> length args \<le> 6 \<and> snd (parseKThreshold w args) = Inr (k, th))
   \<and> (\<forall>h txt k pp th. Predict h txt k pp th \<in> set (fst (predict w args)) \<longrightarrow>
        4 \<le> length args \<and> length args \<le> 6 \<and> snd (parseKThreshold w args) = Inr (k, th))
   \<and> (2 \<le> length args \<and> args ! 1 = ''test'' \<longrightarrow> main w args = Some (finish (test w args)))
   \<and> (2 \<le> length args \<and> (args ! 1 = ''predict'' \<or> args ! 1 = ''predict-prob'') \<longrightarrow>
        main w args = Some (finish (predict w args)))"
proof -
  have a: "length args = 4 \<longrightarrow> parseKThreshold w args = ([], Inr (1, 0))"
    by (simp add: parseKThreshold_def proc_defs)
  have b: "length args = 5 \<longrightarrow>
        (\<forall>k th. snd (parseKThreshold w args) = Inr (k, th) \<longrightarrow>
           th = 0 \<and> std_stoi w (args ! 4) = Some k)"
    by (auto simp: parseKThreshold_def proc_defs split: option.splits)
  have c: "\<forall>k th. snd (parseKThreshold w args) = Inr (k, th) \<and> th \<noteq> 0 \<longrightarrow>
        length args = 6 \<and> std_stoi w (args ! 4) = Some k \<and> std_stof w (args ! 5) = Some th"
    by (auto simp: parseKThreshold_def proc_defs split: option.splits if_splits)
  have d: "\<forall>h txt k th. Test h txt k th \<in> set (fst (test w args)) \<longrightarrow>
        4 \<le> length args \<and> length args \<le> 6 \<and> snd (parseKThreshold w args) = Inr (k, th)"
    using parseKThreshold_silent [of w args]
    by (cases "parseKThreshold w args")
       (auto simp: test_def printTestUsage_def proc_defs
             split: sum.splits option.splits prod.splits if_splits)
  have e: "\<forall>h txt k pp th. Predict h txt k pp th \<in> set (fst (predict w args)) \<longrightarrow>
        4 \<le> length args \<and> length args \<le> 6 \<and> snd (parseKThreshold w args) = Inr (k, th)"
    using parseKThreshold_silent [of w args]
    by (cases "parseKThreshold w args")
       (auto simp: predict_def printPredictUsage_def Let_def proc_defs
             split: sum.splits option.splits prod.splits if_splits)
  have f: "2 \<le> length args \<and> args ! 1 = ''test'' \<longrightarrow> main w args = Some (finish (test w args))"
    by (simp add: main_def)
  have g: "2 \<le> length args \<and> (args ! 1 = ''predict'' \<or> args ! 1 = ''predict-prob'') \<longrightarrow>
        main w args = Some (finish (predict w args))"
    by (auto simp: main_def)
  from a b c d e f g show ?thesis by blast
qed

theorem k_and_threshold_defaults_witness:
  "parseKThreshold sample_world [''hornvecs'', ''test'', ''model.bin'', ''test.txt''] = ([], Inr (1, 0))
   \<and> main sample_world [''hornvecs'', ''test'', ''model.bin'', ''test.txt''] =
     Some ([LoadModel ''model.bin'', Test FullModel ''great movie __label__pos'' 1 0,
            Out (''N'' @ tab @ ''1'' @ endl), Out (''P@1'' @ tab @ ''1'' @ endl),
            Out (''R@1'' @ tab @ ''1'' @ endl), Err (''Number of examples: 1'' @ endl)], Exited 0)
   \<and> snd (parseKThreshold sample_world [''hornvecs'', ''test'', ''model.bin'', ''test.txt'', ''5'']) =
       Inr (5, 0)
   \<and> snd (parseKThreshold sample_world
             [''hornvecs'', ''predict-prob'', ''model.bin'', ''-'', ''5'', ''0.5'']) = Inr (5, 1 / 2)
   \<and> main sample_world [''hornvecs'', ''predict-prob'', ''model.bin'', ''-'', ''5'', ''0.5''] =
       Some ([LoadModel ''model.bin'', Predict FullModel ''great film'' 5 True (1 / 2)], Exited 0)"
proof -
  let ?a4 = "[''hornvecs'', ''test'', ''model.bin'', ''test.txt'']"
  let ?a5 = "[''hornvecs'', ''test'', ''model.bin'', ''test.txt'', ''5'']"
  let ?a6 = "[''hornvecs'', ''predict-prob'', ''model.bin'', ''-'', ''5'', ''0.5'']"
  have "length ?a4 = 4" "2 \<le> length ?a4 \<and> ?a4 ! 1 = ''test''"
    by simp_all
  with k_and_threshold_defaults [of ?a4 sample_world]
  have p4: "parseKThreshold sample_world ?a4 = ([], Inr (1, 0))"
    and m4: "main sample_world ?a4 = Some (finish (test sample_world ?a4))"
    by blast+
  have t4: "finish (test sample_world ?a4) =
     ([LoadModel ''model.bin'', Test FullModel ''great movie __label__pos'' 1 0,
       Out (''N'' @ tab @ ''1'' @ endl), Out (''P@1'' @ tab @ ''1'' @ endl),
       Out (''R@1'' @ tab @ ''1'' @ endl), Err (''Number of examples: 1'' @ endl)], Exited 0)"
    by (simp add: test_def parseKThreshold_def sample_world_def show_int_1 proc_defs)
  have "Test FullModel ''great movie __label__pos'' 5 0 \<in> set (fst (test sample_world ?a5))"
    by (simp add: sample_world_def test_def parseKThreshold_def proc_defs)
  with k_and_threshold_defaults [of ?a5 sample_world]
  have p5: "snd (parseKThreshold sample_world ?a5) = Inr (5, 0)"
    by blast
  have "Predict FullModel ''great film'' 5 True (1 / 2) \<in> set (fst (predict sample_world ?a6))"
    "2 \<le> length ?a6 \<and> (?a6 ! 1 = ''predict'' \<or> ?a6 ! 1 = ''predict-prob'')"
    by (simp_all add: sample_world_def predict_def parseKThreshold_def proc_defs)
  with k_and_threshold_defaults [of ?a6 sample_world]
  have p6: "snd (parseKThreshold sample_world ?a6) = Inr (5, 1 / 2)"
    and m6: "main sample_world ?a6 = Some (finish (predict sample_world ?a6))"
    by blast+
  have t6: "finish (predict sample_world ?a6) =
     ([LoadModel ''model.bin'', Predict FullModel ''great film'' 5 True (1 / 2)], Exited 0)"
    by (simp add: sample_world_def predict_def parseKThreshold_def proc_defs)
  from p4 m4 t4 p5 p6 m6 t6 show ?thesis
    by simp
qed

subsection \<open>Quantized models\<close>

lemma parseKThreshold_isQuant:
  "parseKThreshold (w\<lparr>hv_isQuant := q\<rparr>) args = parseKThreshold w args"
  by (simp add: parseKThreshold_def stoi_def stof_def cong: if_cong)

lemma test_isQuant: "test (w\<lparr>hv_isQuant := q\<rparr>) args = test w args"
  by (simp add: test_def parseKThreshold_isQuant cong: if_cong option.case_cong)

lemma predict_isQuant: "predict (w\<lparr>hv_isQuant := q\<rparr>) args = predict w args"
  by (simp add: predict_def parseKThreshold_isQuant call_void_def cong: if_cong option.case_cong)

lemma printWordVectors_loop_isQuant:
  "printWordVectors_loop (w\<lparr>hv_isQuant := q\<rparr>) h words = printWordVectors_loop w h words"
  by (induction words) simp_all

lemma printWordVectors_isQuant:
  "printWordVectors (w\<lparr>hv_isQuant := q\<rparr>) args = printWordVectors w args"
  by (simp add: printWordVectors_def printWordVectors_loop_isQuant cong: if_cong)

lemma dump_isQuant:
  "args ! 3 \<noteq> ''input'' \<Longrightarrow> args ! 3 \<noteq> ''output'' \<Longrightarrow>
     dump (w\<lparr>hv_isQuant := q\<rparr>) args = dump w args"
  by (simp add: dump_def Let_def cong: if_cong)

lemma printSentenceVectors_loop_isQuant_Some:
  assumes "printSentenceVectors_loop w h cin acc = Some y"
  shows "printSentenceVectors_loop (w\<lparr>hv_isQuant := q\<rparr>) h cin acc = Some y"
  apply (rule printSentenceVectors_loop.raw_induct
    [where P = "\<lambda>w h cin acc y.
                  printSentenceVectors_loop (w\<lparr>hv_isQuant := q\<rparr>) h cin acc = Some y",
     OF _ assms])
  subgoal premises p for loop w h cin acc y
  proof (cases "cin = []")
    case True
    with p(2) show ?thesis
      by (simp add: printSentenceVectors_loop.simps)
  next
    case False
    show ?thesis
    proof (cases "hv_getSentenceVector w h cin")
      case (Inl st)
      with False p(2) show ?thesis
        by (simp add: printSentenceVectors_loop.simps [of "w\<lparr>hv_isQuant := q\<rparr>" h cin])
    next
      case (Inr res)
      with False p(2) have "loop w h (snd res)
          (acc @ [GetSentenceVector h cin, Out (show_vec w (fst res) @ endl)]) = Some y"
        by simp
      from p(1) [OF this] False Inr show ?thesis
        by (simp add: printSentenceVectors_loop.simps [of "w\<lparr>hv_isQuant := q\<rparr>" h cin])
    qed
  qed
  done

lemma printSentenceVectors_loop_isQuant:
  "printSentenceVectors_loop (w\<lparr>hv_isQuant := q\<rparr>) h cin acc =
     printSentenceVectors_loop w h cin acc"
proof (cases "printSentenceVectors_loop w h cin acc")
  case (Some y)
  then show ?thesis
    by (simp add: printSentenceVectors_loop_isQuant_Some)
next
  case None
  show ?thesis
  proof (cases "printSentenceVectors_loop (w\<lparr>hv_isQuant := q\<rparr>) h cin acc")
    case None
    with \<open>printSentenceVectors_loop w h cin acc = None\<close> show ?thesis by simp
  next
    case (Some y)
    from printSentenceVectors_loop_isQuant_Some [OF Some, of "hv_isQuant w"]
    have "printSentenceVectors_loop w h cin acc = Some y"
      by simp
    with \<open>printSentenceVectors_loop w h cin acc = None\<close> show ?thesis by simp
  qed
qed

lemma printSentenceVectors_isQuant:
  "printSentenceVectors (w\<lparr>hv_isQuant := q\<rparr>) args = printSentenceVectors w args"
  by (simp add: printSentenceVectors_def printSentenceVectors_loop_isQuant
      cong: if_cong prod.case_cong sum.case_cong)

lemma main_isQuant:
  assumes "args ! 1 = ''test'' \<or> args ! 1 = ''predict'' \<or> args ! 1 = ''predict-prob''
     \<or> args ! 1 = ''print-word-vectors'' \<or> args ! 1 = ''print-sentence-vectors''
     \<or> (args ! 1 = ''dump'' \<and> args ! 3 \<noteq> ''input'' \<and> args ! 3 \<noteq> ''output'')"
  shows "main (w\<lparr>hv_isQuant := q\<rparr>) args = main w args"
  using assms
  by (auto simp: main_def test_isQuant predict_isQuant printWordVectors_isQuant
      printSentenceVectors_isQuant dump_isQuant)

lemma dump_options:
  assumes "4 \<le> length args" "hv_loadModel w (args ! 2) = Inr h"
  shows "args ! 3 = ''args'' \<longrightarrow>
           dump w args = ([LoadModel (args ! 2), Out (dump_args w h)], Inr ())"
    and "args ! 3 = ''dict'' \<longrightarrow>
           dump w args = ([LoadModel (args ! 2), Out (dump_dict w h)], Inr ())"
    and "args ! 3 = ''input'' \<longrightarrow>
           dump w args =
             ([LoadModel (args ! 2),
               if hv_isQuant w h then Err (''Not supported for quantized models.'' @ endl)
               else Out (dump_input w h)], Inr ())"
    and "args ! 3 = ''output'' \<longrightarrow>
           dump w args =
             ([LoadModel (args ! 2),
               if hv_isQuant w h then Err (''Not supported for quantized models.'' @ endl)
               else Out (dump_output w h)], Inr ())"
  using assms by (simp_all add: dump_def Let_def proc_defs)

lemma test_reports_engine_result:
  assumes "4 \<le> length args" "length args \<le> 6" "snd (parseKThreshold w args) = Inr (k, th)"
    "hv_loadModel w (args ! 2) = Inr h"
    "(if args ! 3 = ''-'' then Some (stdin w) else files w (args ! 3)) = Some ifs"
    "hv_test w h ifs k th = Inr (n, p, r)"
  shows "test w args =
           ([LoadModel (args ! 2), Test h ifs k th,
             Out (''N'' @ tab @ show_int n @ endl),
             Out (''P@'' @ show_int k @ tab @ show_real w 3 p @ endl),
             Out (''R@'' @ show_int k @ tab @ show_real w 3 r @ endl),
             Err (''Number of examples: '' @ show_int n @ endl)], Inr ())"
proof -
  from assms(3) parseKThreshold_silent [of w args]
  have k: "parseKThreshold w args = ([], Inr (k, th))"
    by (cases "parseKThreshold w args") simp
  show ?thesis
    using assms(1,2,4,5,6) by (auto simp: test_def k proc_defs split: if_splits)
qed

lemma parseKThreshold_model_path:
  "parseKThreshold w (args[2 := path]) = parseKThreshold w args"
  by (simp add: parseKThreshold_def cong: if_cong)

lemma test_same_engine_result:
  assumes "hv_loadModel w mf = Inr hf" "hv_loadModel w mq = Inr hq" "hv_test w hq = hv_test w hf"
  shows "stdout_text (fst (test w (args[2 := mq]))) = stdout_text (fst (test w (args[2 := mf])))
         \<and> snd (test w (args[2 := mq])) = snd (test w (args[2 := mf]))"
proof (cases "length args < 4 \<or> length args > 6")
  case True
  then show ?thesis
    by (simp add: test_def)
next
  case False
  obtain es r where k: "parseKThreshold w args = (es, r)"
    by (cases "parseKThreshold w args")
  from parseKThreshold_silent [of w args] k have e: "es = []"
    by simp
  show ?thesis
  proof (cases r)
    case (Inl st)
    then show ?thesis
      using False k e by (simp add: test_def parseKThreshold_model_path)
  next
    case (Inr kt)
    obtain k' th where kt: "kt = (k', th)"
      by (cases kt)
    show ?thesis
      using False k e Inr kt assms
      by (auto simp: test_def parseKThreshold_model_path stdout_text_def proc_defs
          split: option.splits sum.splits prod.splits)
  qed
qed

lemma printWordVectors_loop_same:
  assumes "hv_getWordVector w hq = hv_getWordVector w hf"
  shows "stdout_text (fst (printWordVectors_loop w hq words)) =
           stdout_text (fst (printWordVectors_loop w hf words))
         \<and> snd (printWordVectors_loop w hq words) = snd (printWordVectors_loop w hf words)"
proof (induction words)
  case Nil
  show ?case
    by simp
next
  case (Cons word rest)
  then show ?case
    using assms
    by (cases "printWordVectors_loop w hq rest"; cases "printWordVectors_loop w hf rest";
        cases "hv_getWordVector w hf word")
       (auto simp: stdout_text_def proc_defs split: sum.splits prod.splits)
qed

lemma printWordVectors_same_engine_result:
  assumes "hv_loadModel w mf = Inr hf" "hv_loadModel w mq = Inr hq"
    "hv_getWordVector w hq = hv_getWordVector w hf"
  shows "stdout_text (fst (printWordVectors w (args[2 := mq]))) =
           stdout_text (fst (printWordVectors w (args[2 := mf])))
         \<and> snd (printWordVectors w (args[2 := mq])) = snd (printWordVectors w (args[2 := mf]))"
proof (cases "length args \<noteq> 3")
  case True
  then show ?thesis
    by (simp add: printWordVectors_def)
next
  case False
  then show ?thesis
    using assms printWordVectors_loop_same [OF assms(3), of "cin_words (stdin w)"]
    by (cases "printWordVectors_loop w hq (cin_words (stdin w))";
        cases "printWordVectors_loop w hf (cin_words (stdin w))")
       (auto simp: printWordVectors_def stdout_text_def proc_defs split: sum.splits prod.splits)
qed

text \<open>
  C1, as the code has it. The front end treats a quantized model as it treats a
  full-precision one in \<open>test\<close>, \<open>predict\<close>, \<open>predict-prob\<close>, \<open>print-word-vectors\<close>,
  \<open>print-sentence-vectors\<close> and \<open>dump\<close> with an option other than \<open>input\<close> and \<open>output\<close>:
  the run does not depend on the quantization flag of the engine. \<open>test\<close> prints the
  number of examples, the precision and the recall that the engine returns for the loaded
  model; when the engine answers the same for the model of two files, \<open>test\<close> and
  \<open>print-word-vectors\<close> write the same to \<open>std::cout\<close> and end the same way for both.
  \<open>dump\<close> with option \<open>args\<close> or \<open>dict\<close> prints what the engine gives for the loaded model;
  with option \<open>input\<close> or \<open>output\<close> it prints the matrix of a full-precision model, and
  on a quantized model it writes the line \<open>Not supported for quantized models.\<close> to
  \<open>std::cerr\<close>, nothing to \<open>std::cout\<close>, and returns.
\<close>

theorem inference_on_quantized_models:
  "(args ! 1 = ''test'' \<or> args ! 1 = ''predict'' \<or> args ! 1 = ''predict-prob''
     \<or> args ! 1 = ''print-word-vectors'' \<or> args ! 1 = ''print-sentence-vectors''
     \<or> (args ! 1 = ''dump'' \<and> args ! 3 \<noteq> ''input'' \<and> args ! 3 \<noteq> ''output'')
    \<longrightarrow> main (w\<lparr>hv_isQuant := q\<rparr>) args = main w args)
   \<and> (4 \<le> length args \<and> length args \<le> 6 \<and> snd (parseKThreshold w args) = Inr (k, th)
       \<and> hv_loadModel w (args ! 2) = Inr h
       \<and> (if args ! 3 = ''-'' then Some (stdin w) else files w (args ! 3)) = Some ifs
       \<and> hv_test w h ifs k th = Inr (n, p, r)
      \<longrightarrow> test w args =
           ([LoadModel (args ! 2), Test h ifs k th,
             Out (''N'' @ tab @ show_int n @ endl),
             Out (''P@'' @ show_int k @ tab @ show_real w 3 p @ endl),
             Out (''R@'' @ show_int k @ tab @ show_real w 3 r @ endl),
             Err (''Number of examples: '' @ show_int n @ endl)], Inr ()))
   \<and> (hv_loadModel w mf = Inr hf \<and> hv_loadModel w mq = Inr hq \<and> hv_test w hq = hv_test w hf
      \<longrightarrow> stdout_text (fst (test w (args[2 := mq]))) = stdout_text (fst (test w (args[2 := mf])))
          \<and> snd (test w (args[2 := mq])) = snd (test w (args[2 := mf])))
   \<and> (hv_loadModel w mf = Inr hf \<and> hv_loadModel w mq = Inr hq
       \<and> hv_getWordVector w hq = hv_getWordVector w hf
      \<longrightarrow> stdout_text (fst (printWordVectors w (args[2 := mq]))) =
            stdout_text (fst (printWordVectors w (args[2 := mf])))
          \<and> snd (printWordVectors w (args[2 := mq])) = snd (printWordVectors w (args[2 := mf])))
   \<and> (4 \<le> length args \<and> hv_loadModel w (args ! 2) = Inr h \<longrightarrow>
       (args ! 3 = ''args'' \<longrightarrow>
          dump w args = ([LoadModel (args ! 2), Out (dump_args w h)], Inr ()))
       \<and> (args ! 3 = ''dict'' \<longrightarrow>
          dump w args = ([LoadModel (args ! 2), Out (dump_dict w h)], Inr ()))
       \<and> (args ! 3 = ''input'' \<longrightarrow>
          dump w args =
            ([LoadModel (args ! 2),
              if hv_isQuant w h then Err (''Not supported for quantized models.'' @ endl)
              else Out (dump_input w h)], Inr ()))
       \<and> (args ! 3 = ''output'' \<longrightarrow>
          dump w args =
            ([LoadModel (args ! 2),
              if hv_isQuant w h then Err (''Not supported for quantized models.'' @ endl)
              else Out (dump_output w h)], Inr ())))"
  apply (intro conjI impI; (elim conjE)?)
          apply (rule main_isQuant; assumption)
         apply (rule test_reports_engine_result; assumption)
        apply (rule test_same_engine_result [THEN conjunct1]; assumption)
       apply (rule test_same_engine_result [THEN conjunct2]; assumption)
      apply (rule printWordVectors_same_engine_result [THEN conjunct1]; assumption)
     apply (rule printWordVectors_same_engine_result [THEN conjunct2]; assumption)
    apply (rule dump_options(1) [THEN mp]; assumption)
   apply (rule dump_options(2) [THEN mp]; assumption)
  apply (rule dump_options(3) [THEN mp]; assumption)
  apply (rule dump_options(4) [THEN mp]; assumption)
  done

theorem inference_on_quantized_models_witness:
  "hv_isQuant sample_world QuantModel
   \<and> main (sample_world\<lparr>hv_isQuant := (\<lambda>h. False)\<rparr>)
         [''hornvecs'', ''test'', ''model.ftz'', ''test.txt''] =
       main sample_world [''hornvecs'', ''test'', ''model.ftz'', ''test.txt'']
   \<and> test sample_world [''hornvecs'', ''test'', ''model.ftz'', ''test.txt''] =
       ([LoadModel ''model.ftz'', Test QuantModel ''great movie __label__pos'' 1 0,
         Out (''N'' @ tab @ ''1'' @ endl), Out (''P@1'' @ tab @ ''1'' @ endl),
         Out (''R@1'' @ tab @ ''1'' @ endl), Err (''Number of examples: 1'' @ endl)], Inr ())
   \<and> stdout_text (fst (test sample_world [''hornvecs'', ''test'', ''model.ftz'', ''test.txt''])) =
       stdout_text (fst (test sample_world [''hornvecs'', ''test'', ''model.bin'', ''test.txt'']))
   \<and> stdout_text (fst (printWordVectors sample_world [''hornvecs'', ''print-word-vectors'', ''model.ftz''])) =
       stdout_text (fst (printWordVectors sample_world [''hornvecs'', ''print-word-vectors'', ''model.bin'']))
   \<and> dump sample_world [''hornvecs'', ''dump'', ''model.ftz'', ''args''] =
     ([LoadModel ''model.ftz'', Out ''dim 2''], Inr ())
   \<and> dump sample_world [''hornvecs'', ''dump'', ''model.ftz'', ''dict''] =
     ([LoadModel ''model.ftz'', Out ''1 great''], Inr ())
   \<and> dump sample_world [''hornvecs'', ''dump'', ''model.bin'', ''input''] =
     ([LoadModel ''model.bin'', Out ''0 0.5''], Inr ())
   \<and> dump sample_world [''hornvecs'', ''dump'', ''model.ftz'', ''output''] =
     ([LoadModel ''model.ftz'', Err (''Not supported for quantized models.'' @ endl)], Inr ())"
proof -
  let ?t = "[''hornvecs'', ''test'', ''model.ftz'', ''test.txt'']"
  let ?v = "[''hornvecs'', ''print-word-vectors'', ''model.ftz'']"
  have c: "?t ! 1 = ''test'' \<or> ?t ! 1 = ''predict'' \<or> ?t ! 1 = ''predict-prob''
     \<or> ?t ! 1 = ''print-word-vectors'' \<or> ?t ! 1 = ''print-sentence-vectors''
     \<or> (?t ! 1 = ''dump'' \<and> ?t ! 3 \<noteq> ''input'' \<and> ?t ! 3 \<noteq> ''output'')"
    by simp
  note a = inference_on_quantized_models [where args = ?t and w = sample_world
      and q = "\<lambda>h. False", THEN conjunct1, THEN mp, OF c]
  have e: "4 \<le> length ?t \<and> length ?t \<le> 6 \<and> snd (parseKThreshold sample_world ?t) = Inr (1, 0)
       \<and> hv_loadModel sample_world (?t ! 2) = Inr QuantModel
       \<and> (if ?t ! 3 = ''-'' then Some (stdin sample_world) else files sample_world (?t ! 3))
           = Some ''great movie __label__pos''
       \<and> hv_test sample_world QuantModel ''great movie __label__pos'' 1 0 = Inr (1, 1, 1)"
    by (simp add: sample_world_def parseKThreshold_def proc_defs)
  note b = inference_on_quantized_models [where args = ?t and w = sample_world and k = 1
      and th = 0 and h = QuantModel and ifs = "''great movie __label__pos''" and n = 1 and p = 1
      and r = 1, THEN conjunct2, THEN conjunct1, THEN mp, OF e]
  have f: "hv_loadModel sample_world ''model.bin'' = Inr FullModel
       \<and> hv_loadModel sample_world ''model.ftz'' = Inr QuantModel
       \<and> hv_test sample_world QuantModel = hv_test sample_world FullModel"
    by (simp add: sample_world_def)
  note t = inference_on_quantized_models [where args = ?t and w = sample_world
      and mf = "''model.bin''" and mq = "''model.ftz''" and hf = FullModel and hq = QuantModel,
      THEN conjunct2, THEN conjunct2, THEN conjunct1, THEN mp, OF f, THEN conjunct1]
  have g: "hv_loadModel sample_world ''model.bin'' = Inr FullModel
       \<and> hv_loadModel sample_world ''model.ftz'' = Inr QuantModel
       \<and> hv_getWordVector sample_world QuantModel = hv_getWordVector sample_world FullModel"
    by (simp add: sample_world_def)
  note v = inference_on_quantized_models [where args = ?v and w = sample_world
      and mf = "''model.bin''" and mq = "''model.ftz''" and hf = FullModel and hq = QuantModel,
      THEN conjunct2, THEN conjunct2, THEN conjunct2, THEN conjunct1, THEN mp, OF g,
      THEN conjunct1]
  have s: "show_real sample_world 3 1 = ''1''"
    by (simp add: sample_world_def)
  have q: "hv_isQuant sample_world QuantModel"
    by (simp add: sample_world_def)
  have d: "dump sample_world [''hornvecs'', ''dump'', ''model.ftz'', ''args''] =
     ([LoadModel ''model.ftz'', Out ''dim 2''], Inr ())
   \<and> dump sample_world [''hornvecs'', ''dump'', ''model.ftz'', ''dict''] =
     ([LoadModel ''model.ftz'', Out ''1 great''], Inr ())
   \<and> dump sample_world [''hornvecs'', ''dump'', ''model.bin'', ''input''] =
     ([LoadModel ''model.bin'', Out ''0 0.5''], Inr ())
   \<and> dump sample_world [''hornvecs'', ''dump'', ''model.ftz'', ''output''] =
     ([LoadModel ''model.ftz'', Err (''Not supported for quantized models.'' @ endl)], Inr ())"
    using inference_on_quantized_models
        [where args = "[''hornvecs'', ''dump'', ''model.ftz'', ''args'']" and w = sample_world
           and h = QuantModel, THEN conjunct2, THEN conjunct2, THEN conjunct2, THEN conjunct2]
      inference_on_quantized_models
        [where args = "[''hornvecs'', ''dump'', ''model.ftz'', ''dict'']" and w = sample_world
           and h = QuantModel, THEN conjunct2, THEN conjunct2, THEN conjunct2, THEN conjunct2]
      inference_on_quantized_models
        [where args = "[''hornvecs'', ''dump'', ''model.bin'', ''input'']" and w = sample_world
           and h = FullModel, THEN conjunct2, THEN conjunct2, THEN conjunct2, THEN conjunct2]
      inference_on_quantized_models
        [where args = "[''hornvecs'', ''dump'', ''model.ftz'', ''output'']" and w = sample_world
           and h = QuantModel, THEN conjunct2, THEN conjunct2, THEN conjunct2, THEN conjunct2]
    by (simp add: sample_world_def)
  from t have t': "stdout_text (fst (test sample_world ?t)) =
       stdout_text (fst (test sample_world [''hornvecs'', ''test'', ''model.bin'', ''test.txt'']))"
    by simp
  from v have v': "stdout_text (fst (printWordVectors sample_world ?v)) =
       stdout_text (fst (printWordVectors sample_world
          [''hornvecs'', ''print-word-vectors'', ''model.bin'']))"
    by simp
  from a b d q t' v' show ?thesis
    by (simp add: s show_int_1)
qed

text \<open>
  C1 as stated fails: \<open>dump\<close> with option \<open>input\<close> prints the input matrix of the
  full-precision model in \<open>model.bin\<close> and refuses the quantized model in \<open>model.ftz\<close>.
\<close>

theorem dump_refused_on_quantized_model:
  "hv_loadModel sample_world ''model.ftz'' = Inr QuantModel
   \<and> hv_isQuant sample_world QuantModel
   \<and> main sample_world [''hornvecs'', ''dump'', ''model.ftz'', ''input''] =
       Some ([LoadModel ''model.ftz'', Err (''Not supported for quantized models.'' @ endl)], Exited 0)
   \<and> main sample_world [''hornvecs'', ''dump'', ''model.bin'', ''input''] =
       Some ([LoadModel ''model.bin'', Out ''0 0.5''], Exited 0)"
  by (simp add: main_def dump_def sample_world_def Let_def proc_defs)

subsection \<open>I/O errors\<close>















section \<open>Properties of the engine as specified\<close>

subsection \<open>Learning rate\<close>

lemma learning_rate_nonneg: "0 \<le> learning_rate lr0 p T"
  by (simp add: learning_rate_def)

lemma learning_rate_mono:
  assumes "0 < lr0" "0 < T" "p \<le> q"
  shows "learning_rate lr0 q T \<le> learning_rate lr0 p T"
proof -
  have "real p / real T \<le> real q / real T"
    using assms by (simp add: divide_right_mono)
  then have "lr0 * (1 - real q / real T) \<le> lr0 * (1 - real p / real T)"
    using assms(1) by simp
  then show ?thesis
    unfolding learning_rate_def by (rule max.mono [OF order_refl])
qed

lemma learning_rate_zero_iff:
  assumes "0 < lr0" "0 < T"
  shows "learning_rate lr0 p T = 0 \<longleftrightarrow> T \<le> p"
proof -
  have "learning_rate lr0 p T = 0 \<longleftrightarrow> lr0 * (1 - real p / real T) \<le> 0"
    unfolding learning_rate_def by (auto simp: max_def)
  also have "\<dots> \<longleftrightarrow> 1 - real p / real T \<le> 0"
    using assms(1) by (simp add: mult_le_0_iff)
  also have "\<dots> \<longleftrightarrow> real T \<le> real p"
    using assms(2) by (simp add: le_divide_eq)
  finally show ?thesis by simp
qed

lemma learning_rates_nth:
  "i < length ns \<Longrightarrow>
     learning_rates lr0 T p ns ! i = learning_rate lr0 (p + sum_list (take i ns)) T"
proof (induction ns arbitrary: p i)
  case Nil
  then show ?case by simp
next
  case (Cons n ns)
  then show ?case by (cases i) (simp_all add: add.assoc)
qed

lemma learning_rates_length: "length (learning_rates lr0 T p ns) = length ns"
  by (induction ns arbitrary: p) simp_all

lemma learning_rates_lower:
  "0 < lr0 \<Longrightarrow> 0 < T \<Longrightarrow> x \<in> set (learning_rates lr0 T q ns) \<Longrightarrow> p \<le> q \<Longrightarrow>
     x \<le> learning_rate lr0 p T"
proof (induction ns arbitrary: q)
  case Nil
  then show ?case by simp
next
  case (Cons n ns)
  from Cons.prems(3) consider "x = learning_rate lr0 q T" | "x \<in> set (learning_rates lr0 T (q + n) ns)"
    by auto
  then show ?case
  proof cases
    case 1
    then show ?thesis using Cons.prems learning_rate_mono by simp
  next
    case 2
    then show ?thesis using Cons.IH [of "q + n"] Cons.prems by simp
  qed
qed

lemma learning_rates_sorted:
  "0 < lr0 \<Longrightarrow> 0 < T \<Longrightarrow> sorted_wrt (\<lambda>a b. b \<le> a) (learning_rates lr0 T p ns)"
proof (induction ns arbitrary: p)
  case Nil
  then show ?case by simp
next
  case (Cons n ns)
  then show ?case
    using learning_rates_lower [of lr0 T _ "p + n" ns p] by auto
qed

text \<open>
  C4: with \<open>lr0 > 0\<close> and a positive total-token target, the learning rate is
  \<open>lr0 * (1 - processedTokens/totalTokensTarget)\<close> clamped at 0 from below; it does not
  increase when the token count grows, so the rates of a single-threaded run never increase
  over time; and it is exactly 0 if and only if the token count has reached the target.
\<close>

theorem learning_rate_decays:
  "0 < lr0 \<and> 0 < T \<longrightarrow>
     learning_rate lr0 p T = max 0 (lr0 * (1 - real p / real T))
     \<and> 0 \<le> learning_rate lr0 p T
     \<and> (p \<le> q \<longrightarrow> learning_rate lr0 q T \<le> learning_rate lr0 p T)
     \<and> (learning_rate lr0 p T = 0 \<longleftrightarrow> T \<le> p)
     \<and> sorted_wrt (\<lambda>a b. b \<le> a) (learning_rates lr0 T p ns)
     \<and> (\<forall>i < length ns.
           learning_rates lr0 T p ns ! i = learning_rate lr0 (p + sum_list (take i ns)) T
           \<and> (learning_rates lr0 T p ns ! i = 0 \<longrightarrow> T \<le> p + sum_list (take i ns)))"
proof
  assume h: "0 < lr0 \<and> 0 < T"
  have a: "learning_rate lr0 p T = max 0 (lr0 * (1 - real p / real T))"
    by (simp add: learning_rate_def)
  have b: "p \<le> q \<longrightarrow> learning_rate lr0 q T \<le> learning_rate lr0 p T"
    using h learning_rate_mono by blast
  have c: "learning_rate lr0 p T = 0 \<longleftrightarrow> T \<le> p"
    using h learning_rate_zero_iff by blast
  have d: "sorted_wrt (\<lambda>a b. b \<le> a) (learning_rates lr0 T p ns)"
    using h learning_rates_sorted by blast
  have e: "\<forall>i < length ns.
           learning_rates lr0 T p ns ! i = learning_rate lr0 (p + sum_list (take i ns)) T
           \<and> (learning_rates lr0 T p ns ! i = 0 \<longrightarrow> T \<le> p + sum_list (take i ns))"
    using h learning_rates_nth [of _ ns lr0 T p] learning_rate_zero_iff [of lr0 T] by simp
  from a b c d e learning_rate_nonneg [of lr0 p T]
  show "learning_rate lr0 p T = max 0 (lr0 * (1 - real p / real T))
     \<and> 0 \<le> learning_rate lr0 p T
     \<and> (p \<le> q \<longrightarrow> learning_rate lr0 q T \<le> learning_rate lr0 p T)
     \<and> (learning_rate lr0 p T = 0 \<longleftrightarrow> T \<le> p)
     \<and> sorted_wrt (\<lambda>a b. b \<le> a) (learning_rates lr0 T p ns)
     \<and> (\<forall>i < length ns.
           learning_rates lr0 T p ns ! i = learning_rate lr0 (p + sum_list (take i ns)) T
           \<and> (learning_rates lr0 T p ns ! i = 0 \<longrightarrow> T \<le> p + sum_list (take i ns)))"
    by blast
qed

theorem learning_rate_decays_witness:
  "learning_rate (1 / 10) 0 100 = 1 / 10
   \<and> learning_rate (1 / 10) 50 100 = 1 / 20
   \<and> learning_rate (1 / 10) 100 100 = 0
   \<and> learning_rates (1 / 10) 100 0 [50, 50, 10] = [1 / 10, 1 / 20, 0]"
proof -
  have h: "(0::real) < 1 / 10 \<and> (0::nat) < 100"
    by simp
  have "(50::nat) \<le> 100" "(100::nat) \<le> 100"
    by simp_all
  with learning_rate_decays [of "1 / 10" 100 100 100 "[]"] h
  have z: "learning_rate (1 / 10) 100 100 = 0"
    by blast
  from learning_rate_decays [of "1 / 10" 100 0 0 "[]"] h
  have a: "learning_rate (1 / 10) 0 100 = max 0 (1 / 10 * (1 - real 0 / real 100))"
    by blast
  from learning_rate_decays [of "1 / 10" 100 50 50 "[]"] h
  have b: "learning_rate (1 / 10) 50 100 = max 0 (1 / 10 * (1 - real 50 / real 100))"
    by blast
  from a b z show ?thesis
    by simp
qed

subsection \<open>Dictionary\<close>

lemma build_entries:
  "set (dict_entries (build minCount minCountLabel t d)) =
     {e \<in> set (dict_entries d).
        (if entry_type e = WordEntry then minCount else minCountLabel) \<le> entry_count e}"
  by (auto simp: build_def Let_def)

text \<open>
  C5: \<open>build\<close> retains the entries that reach their count threshold, and for every
  retained entry \<open>w\<close> its discard probability is \<open>sqrt(t/f(w)) + t/f(w)\<close> clamped to the
  interval from 0 to 1, where \<open>f(w)\<close> is the corpus frequency of \<open>w\<close>.
\<close>

theorem discard_probabilities:
  "(set (dict_entries (build minCount minCountLabel t d)) =
      {e \<in> set (dict_entries d).
         (if entry_type e = WordEntry then minCount else minCountLabel) \<le> entry_count e})
   \<and> length (dict_pdiscard (build minCount minCountLabel t d)) =
       length (dict_entries (build minCount minCountLabel t d))
   \<and> (\<forall>i < length (dict_entries (build minCount minCountLabel t d)).
         dict_pdiscard (build minCount minCountLabel t d) ! i =
           min 1 (max 0
             (sqrt (t / frequency d (dict_entries (build minCount minCountLabel t d) ! i))
              + t / frequency d (dict_entries (build minCount minCountLabel t d) ! i)))
         \<and> 0 \<le> dict_pdiscard (build minCount minCountLabel t d) ! i
         \<and> dict_pdiscard (build minCount minCountLabel t d) ! i \<le> 1)"
  using build_entries [of minCount minCountLabel t d]
  by (simp add: build_def Let_def discard_prob_def)

theorem discard_probabilities_witness:
  "dict_entries (build 2 0 (3 / 16) sample_dictionary) =
     [\<lparr>entry_word = ''a'', entry_count = 3, entry_type = WordEntry\<rparr>]
   \<and> dict_pdiscard (build 2 0 (3 / 16) sample_dictionary) = [3 / 4]"
proof -
  let ?d = "build 2 0 (3 / 16) sample_dictionary"
  have e: "dict_entries ?d = [\<lparr>entry_word = ''a'', entry_count = 3, entry_type = WordEntry\<rparr>]"
    by (simp add: build_def sample_dictionary_def addToken_def Let_def)
  then have "0 < length (dict_entries ?d)"
    by simp
  with discard_probabilities [of 2 0 "3 / 16" sample_dictionary]
  have l: "length (dict_pdiscard ?d) = length (dict_entries ?d)"
    and p: "dict_pdiscard ?d ! 0 =
           min 1 (max 0
             (sqrt ((3 / 16) / frequency sample_dictionary (dict_entries ?d ! 0))
              + (3 / 16) / frequency sample_dictionary (dict_entries ?d ! 0)))"
    by blast+
  have n: "dict_ntokens sample_dictionary = 4"
    by (simp add: sample_dictionary_def addToken_def)
  have f: "frequency sample_dictionary (dict_entries ?d ! 0) = 3 / 4"
    by (simp add: e n frequency_def)
  have s: "sqrt (1 / 4) = 1 / 2"
    by (simp add: real_sqrt_divide)
  have "dict_pdiscard ?d ! 0 = 3 / 4"
    unfolding p f using s by simp
  with l e have "dict_pdiscard ?d = [3 / 4]"
    by (cases "dict_pdiscard ?d") simp_all
  with e show ?thesis
    by simp
qed

subsection \<open>Word vectors\<close>

lemma index_of_less: "index_of x xs = Some i \<Longrightarrow> i < length xs"
  by (induction xs arbitrary: i) (auto split: if_splits)


lemma getSubwords_in_range:
  assumes "loaded m"
  shows "\<forall>i \<in> set (getSubwords pol m w). i < length (m_input m)"
proof -
  have own: "\<forall>i \<in> set (case index_of w (vocabulary m) of None \<Rightarrow> [] | Some i \<Rightarrow> [i]).
               i < length (m_input m)"
  proof (cases "index_of w (vocabulary m)")
    case None
    then show ?thesis by simp
  next
    case (Some i)
    from index_of_less [OF Some] assms show ?thesis
      by (simp add: Some loaded_def)
  qed
  show ?thesis
  proof (cases "hp_bucket (m_args m) = 0")
    case True
    with own show ?thesis
      by (simp add: getSubwords_def)
  next
    case False
    with assms own show ?thesis
      by (auto simp: getSubwords_def Let_def loaded_def)
  qed
qed


lemma rows_at_in_range:
  "\<forall>i \<in> set ids. i < length mat \<Longrightarrow>
     \<exists>rows. rows_at mat ids = Inr rows \<and> length rows = length ids \<and> set rows \<subseteq> set mat"
  by (induction ids) auto

lemma length_vec_sum: "\<forall>r \<in> set rows. length r = d \<Longrightarrow> length (vec_sum d rows) = d"
  by (induction rows) (simp_all add: vec_sum_def)

lemma getWordVector_loaded:
  assumes "loaded m"
  shows "\<exists>vec. getWordVector pol m w = Inr vec \<and> length vec = hp_dim (m_args m)"
proof -
  from rows_at_in_range [OF getSubwords_in_range [OF assms, of pol w]] obtain rows
    where rows: "rows_at (m_input m) (getSubwords pol m w) = Inr rows"
      "set rows \<subseteq> set (m_input m)"
    by blast
  from assms rows(2) have "\<forall>r \<in> set rows. length r = hp_dim (m_args m)"
    by (auto simp: loaded_def list_all_iff)
  then have "length (vec_sum (hp_dim (m_args m)) rows) = hp_dim (m_args m)"
    by (rule length_vec_sum)
  with rows(1) show ?thesis
    by (simp add: getWordVector_def)
qed






lemma loaded_toy_model: "loaded toy_model"
  by (simp add: loaded_def toy_model_def vocabulary_def)


lemma ngrams_ab: "ngrams 3 3 ''ab'' = [''<ab'', ''ab>'']"
  by code_simp

lemma replicate_2: "replicate 2 x = [x, x]"
  by (simp add: numeral_2_eq_2)



lemma getWordVector_toy_ab: "getWordVector toy_policy toy_model ''ab'' = Inr [2 / 3, 2 / 3]"
  by (simp add: getWordVector_def getSubwords_def toy_model_def toy_policy_def vocabulary_def
      ngrams_ab vec_sum_def replicate_2)

lemma load_sample_stream: "load sample_format sample_stream = Inr sample_loaded"
  by code_simp




subsection \<open>Precision and recall\<close>

lemma model_predict_one:
  assumes "labels m \<noteq> []" "\<forall>c < length (labels m). threshold \<le> score text c"
  shows "length (model_predict score m text 1 threshold) = 1"
proof -
  obtain n where n: "length (labels m) = Suc n"
    using assms(1) by (cases "labels m") auto
  have "filter (\<lambda>c. threshold \<le> score text c) [0..<length (labels m)] = [0..<length (labels m)]"
    using assms(2) by (simp add: filter_id_conv)
  then have "length (sort_key (\<lambda>c. - score text c)
                (filter (\<lambda>c. threshold \<le> score text c) [0..<length (labels m)])) = Suc n"
    using n by simp
  then show ?thesis
    unfolding model_predict_def by simp
qed

lemma tally_one_label:
  assumes "\<forall>ex \<in> set exs. length (snd ex) = 1"
  shows "\<exists>hits npredictions.
           tally score m k threshold exs = (length exs, hits, npredictions, length exs)"
  using assms
proof (induction exs)
  case Nil
  then show ?case by simp
next
  case (Cons ex exs)
  then obtain hits npredictions
    where "tally score m k threshold exs = (length exs, hits, npredictions, length exs)"
    by auto
  with Cons.prems show ?case
    by (simp add: Let_def)
qed

lemma tally_one_prediction:
  assumes "labels m \<noteq> []"
    "\<forall>ex \<in> set exs. \<forall>c < length (labels m). threshold \<le> score (fst ex) c"
  shows "fst (snd (snd (tally score m 1 threshold exs))) = length exs"
  using assms(2)
proof (induction exs)
  case Nil
  then show ?case by simp
next
  case (Cons ex exs)
  from Cons.prems have "length (model_predict score m (fst ex) 1 threshold) = 1"
    using model_predict_one [OF assms(1), of threshold score "fst ex"] by simp
  with Cons show ?case
    by (cases "tally score m 1 threshold exs") (simp add: Let_def)
qed

lemma labels_toy_model: "labels toy_model = [''__label__pos'', ''__label__neg'']"
  by (simp add: labels_def toy_model_def)

lemma model_test_toy_default: "model_test toy_score toy_model toy_examples 1 0 = (2, 1, 1)"
  by (simp add: model_test_def toy_examples_def model_predict_def labels_toy_model toy_score_def
      Let_def upt_rec [of 0] upt_rec [of 1] upt_rec [of 2])

lemma model_test_toy_threshold:
  "model_test toy_score toy_model toy_examples 1 (9 / 10) = (2, 1 / 2, 1 / 2)"
  by (simp add: model_test_def toy_examples_def model_predict_def labels_toy_model toy_score_def
      Let_def upt_rec [of 0] upt_rec [of 1] upt_rec [of 2])

text \<open>
  C6: on a test set in which every example has exactly one label, \<open>test\<close> with \<open>k = 1\<close>,
  whatever the threshold, yields a precision equal to the recall, over all the examples of
  the set. With at least one label in the model and a threshold that no score is below, one
  label is predicted for each example.
\<close>

theorem precision_equals_recall_at_1:
  "(\<forall>ex \<in> set exs. length (snd ex) = 1) \<longrightarrow>
     fst (snd (model_test score m exs 1 threshold)) = snd (snd (model_test score m exs 1 threshold))
     \<and> fst (model_test score m exs 1 threshold) = length exs
     \<and> (labels m \<noteq> []
          \<and> (\<forall>ex \<in> set exs. \<forall>c < length (labels m). threshold \<le> score (fst ex) c)
        \<longrightarrow> fst (snd (snd (tally score m 1 threshold exs))) = 1 * length exs)"
proof
  assume h: "\<forall>ex \<in> set exs. length (snd ex) = 1"
  then obtain hits npredictions
    where "tally score m 1 threshold exs = (length exs, hits, npredictions, length exs)"
    using tally_one_label [of exs score m 1 threshold] by blast
  then have a: "fst (snd (model_test score m exs 1 threshold)) =
                  snd (snd (model_test score m exs 1 threshold))
                \<and> fst (model_test score m exs 1 threshold) = length exs"
    by (simp add: model_test_def)
  have b: "labels m \<noteq> []
          \<and> (\<forall>ex \<in> set exs. \<forall>c < length (labels m). threshold \<le> score (fst ex) c)
        \<longrightarrow> fst (snd (snd (tally score m 1 threshold exs))) = 1 * length exs"
    using tally_one_prediction [of m exs threshold score] by simp
  from a b show "fst (snd (model_test score m exs 1 threshold)) =
       snd (snd (model_test score m exs 1 threshold))
     \<and> fst (model_test score m exs 1 threshold) = length exs
     \<and> (labels m \<noteq> []
          \<and> (\<forall>ex \<in> set exs. \<forall>c < length (labels m). threshold \<le> score (fst ex) c)
        \<longrightarrow> fst (snd (snd (tally score m 1 threshold exs))) = 1 * length exs)"
    by blast
qed

theorem precision_equals_recall_at_1_witness:
  "map (length \<circ> snd) toy_examples = [1, 1]
   \<and> model_test toy_score toy_model toy_examples 1 0 = (2, 1, 1)
   \<and> model_test toy_score toy_model toy_examples 1 (9 / 10) = (2, 1 / 2, 1 / 2)
   \<and> fst (snd (snd (tally toy_score toy_model 1 0 toy_examples))) = 2"
proof -
  have b: "\<forall>ex \<in> set toy_examples. length (snd ex) = 1"
    by (simp add: toy_examples_def)
  have c: "labels toy_model \<noteq> []
     \<and> (\<forall>ex \<in> set toy_examples. \<forall>c < length (labels toy_model). 0 \<le> toy_score (fst ex) c)"
    by (simp add: toy_examples_def toy_score_def labels_toy_model)
  note t = precision_equals_recall_at_1 [of toy_examples toy_score toy_model 0, THEN mp, OF b]
  note n = t [THEN conjunct2, THEN conjunct2, THEN mp, OF c]
  have l: "length toy_examples = 2"
    by (simp add: toy_examples_def)
  from n l have "fst (snd (snd (tally toy_score toy_model 1 0 toy_examples))) = 2"
    by simp
  with model_test_toy_default model_test_toy_threshold show ?thesis
    by (simp add: toy_examples_def)
qed

subsection \<open>Artifacts of training\<close>

lemma vector_rows_loaded:
  assumes "loaded m"
  shows "\<exists>rows. vector_rows shw pol m toks = Inr rows \<and> length rows = length toks
           \<and> (\<forall>i < length toks. \<exists>vec. length vec = hp_dim (m_args m)
                                  \<and> rows ! i = vector_row shw (toks ! i) vec)"
proof (induction toks)
  case Nil
  then show ?case by simp
next
  case (Cons tok toks)
  from getWordVector_loaded [OF assms, of pol tok] obtain vec
    where vec: "getWordVector pol m tok = Inr vec" "length vec = hp_dim (m_args m)"
    by blast
  from Cons obtain rows
    where rows: "vector_rows shw pol m toks = Inr rows" "length rows = length toks"
      "\<forall>i < length toks. \<exists>vec. length vec = hp_dim (m_args m)
                                  \<and> rows ! i = vector_row shw (toks ! i) vec"
    by blast
  have "\<forall>i < length (tok # toks). \<exists>v. length v = hp_dim (m_args m)
           \<and> (vector_row shw tok vec # rows) ! i = vector_row shw ((tok # toks) ! i) v"
  proof (intro allI impI)
    fix i
    assume "i < length (tok # toks)"
    then show "\<exists>v. length v = hp_dim (m_args m)
           \<and> (vector_row shw tok vec # rows) ! i = vector_row shw ((tok # toks) ! i) v"
      using vec(2) rows(3) by (cases i) auto
  qed
  with vec rows(1,2) show ?case
    by simp
qed

lemma train_succeeds:
  assumes "args_parseArgs w args = Inr a" "hv_train w a = Inr h"
    "fails w (SaveModel h) = None" "fails w (SaveVectors h) = None"
    "args_saveOutput a \<longrightarrow> fails w (SaveOutput h) = None"
  shows "train w args =
           ([ParseArgs args, Train a, SaveModel h, SaveVectors h]
              @ (if args_saveOutput a then [SaveOutput h] else []), Inr ())"
  using assms by (simp add: train_def proc_defs)

text \<open>
  C3: a training run in which every engine call returns saves the binary model, then the
  text vectors, and then the output matrix exactly when \<open>saveOutput\<close> is set, and nothing
  else; the commands \<open>skipgram\<close>, \<open>cbow\<close> and \<open>supervised\<close> all run it. The text
  vectors of a loaded model have one row for each vocabulary entry, the token followed by
  \<open>dim\<close> values, each after one space.
\<close>

theorem train_saves_model_and_vectors:
  "(args_parseArgs w args = Inr a \<and> hv_train w a = Inr h
      \<and> fails w (SaveModel h) = None \<and> fails w (SaveVectors h) = None
      \<and> (args_saveOutput a \<longrightarrow> fails w (SaveOutput h) = None)
     \<longrightarrow> train w args =
           ([ParseArgs args, Train a, SaveModel h, SaveVectors h]
              @ (if args_saveOutput a then [SaveOutput h] else []), Inr ()))
   \<and> (2 \<le> length args
       \<and> (args ! 1 = ''skipgram'' \<or> args ! 1 = ''cbow'' \<or> args ! 1 = ''supervised'')
     \<longrightarrow> main w args = Some (finish (train w args)))
   \<and> (loaded m
     \<longrightarrow> (\<exists>rows. saveVectors shw pol m = Inr rows
            \<and> length rows = length (vocabulary m)
            \<and> (\<forall>i < length (vocabulary m).
                  \<exists>vec. length vec = hp_dim (m_args m)
                        \<and> rows ! i = vector_row shw (vocabulary m ! i) vec)))"
  using train_succeeds [of w args a h] vector_rows_loaded [of m shw pol "vocabulary m"]
  by (auto simp: main_def saveVectors_def)

theorem train_saves_model_and_vectors_witness:
  "main sample_world [''hornvecs'', ''skipgram'', ''-output'', ''model''] =
     Some ([ParseArgs [''hornvecs'', ''skipgram'', ''-output'', ''model''],
            Train \<lparr>args_output = ''model'', args_saveOutput = False\<rparr>,
            SaveModel FullModel, SaveVectors FullModel], Exited 0)
   \<and> train sample_world [''hornvecs'', ''cbow'', ''-output'', ''model'', ''-saveOutput'', ''1''] =
       ([ParseArgs [''hornvecs'', ''cbow'', ''-output'', ''model'', ''-saveOutput'', ''1''],
         Train \<lparr>args_output = ''model'', args_saveOutput = True\<rparr>,
         SaveModel FullModel, SaveVectors FullModel, SaveOutput FullModel], Inr ())
   \<and> saveVectors (\<lambda>x. ''0.667'') toy_policy toy_model = Inr [''ab 0.667 0.667'']"
proof -
  let ?a = "[''hornvecs'', ''skipgram'', ''-output'', ''model'']"
  let ?b = "[''hornvecs'', ''cbow'', ''-output'', ''model'', ''-saveOutput'', ''1'']"
  let ?A = "\<lparr>args_output = ''model'', args_saveOutput = False\<rparr>"
  let ?B = "\<lparr>args_output = ''model'', args_saveOutput = True\<rparr>"
  have ha: "args_parseArgs sample_world ?a = Inr ?A \<and> hv_train sample_world ?A = Inr FullModel
      \<and> fails sample_world (SaveModel FullModel) = None
      \<and> fails sample_world (SaveVectors FullModel) = None
      \<and> (args_saveOutput ?A \<longrightarrow> fails sample_world (SaveOutput FullModel) = None)"
    "2 \<le> length ?a \<and> (?a ! 1 = ''skipgram'' \<or> ?a ! 1 = ''cbow'' \<or> ?a ! 1 = ''supervised'')"
    by (simp_all add: sample_world_def)
  have hb: "args_parseArgs sample_world ?b = Inr ?B \<and> hv_train sample_world ?B = Inr FullModel
      \<and> fails sample_world (SaveModel FullModel) = None
      \<and> fails sample_world (SaveVectors FullModel) = None
      \<and> (args_saveOutput ?B \<longrightarrow> fails sample_world (SaveOutput FullModel) = None)"
    by (simp add: sample_world_def)
  from train_saves_model_and_vectors [of sample_world ?a ?A FullModel] ha
  have ta: "train sample_world ?a =
           ([ParseArgs ?a, Train ?A, SaveModel FullModel, SaveVectors FullModel]
              @ (if args_saveOutput ?A then [SaveOutput FullModel] else []), Inr ())"
    and ma: "main sample_world ?a = Some (finish (train sample_world ?a))"
    by blast+
  from train_saves_model_and_vectors [of sample_world ?b ?B FullModel] hb
  have tb: "train sample_world ?b =
           ([ParseArgs ?b, Train ?B, SaveModel FullModel, SaveVectors FullModel]
              @ (if args_saveOutput ?B then [SaveOutput FullModel] else []), Inr ())"
    by blast
  from train_saves_model_and_vectors
         [of sample_world ?b ?B FullModel toy_model "\<lambda>x. ''0.667''" toy_policy]
    loaded_toy_model
  obtain rows where r: "saveVectors (\<lambda>x. ''0.667'') toy_policy toy_model = Inr rows"
    "length rows = length (vocabulary toy_model)"
    by blast
  have voc: "vocabulary toy_model = [''ab'']"
    by (simp add: vocabulary_def toy_model_def)
  have sv: "saveVectors (\<lambda>x. ''0.667'') toy_policy toy_model = Inr [''ab 0.667 0.667'']"
    by (simp add: saveVectors_def voc getWordVector_toy_ab vector_row_def)
  from ta ma tb sv show ?thesis
    by simp
qed

subsection \<open>Loading a model\<close>

lemma exactI:
  assumes "\<And>s e. P s = Inl e \<Longrightarrow> e = FormatError"
    and "\<And>s x r. P s = Inr (x, r) \<Longrightarrow>
           \<exists>u. s = u @ r \<and> (\<forall>t. P (u @ t) = Inr (x, t))
               \<and> (\<forall>p. strict_prefix p u \<longrightarrow> P p = Inl FormatError)"
  shows "exact P"
  using assms unfolding exact_def by blast

lemma exact_rreturn: "exact (rreturn x)"
  by (rule exactI) (auto simp: rreturn_def)

lemma exact_rfail: "exact rfail"
  by (rule exactI) (auto simp: rfail_def)

lemma strict_prefix_single: "strict_prefix p [x] \<Longrightarrow> p = []"
  by (cases p) (auto simp: strict_prefix_def)

lemma exact_read_int: "exact read_int"
proof (rule exactI)
  fix s e assume "read_int s = Inl e"
  then show "e = FormatError"
    by (auto simp: read_int_def split: list.splits field.splits)
next
  fix s x r assume "read_int s = Inr (x, r)"
  then have "s = [IntField x] @ r"
    by (auto simp: read_int_def split: list.splits field.splits)
  moreover have "\<forall>t. read_int ([IntField x] @ t) = Inr (x, t)"
    by (simp add: read_int_def)
  moreover have "\<forall>p. strict_prefix p [IntField x] \<longrightarrow> read_int p = Inl FormatError"
    by (auto simp: read_int_def dest: strict_prefix_single)
  ultimately show "\<exists>u. s = u @ r \<and> (\<forall>t. read_int (u @ t) = Inr (x, t))
               \<and> (\<forall>p. strict_prefix p u \<longrightarrow> read_int p = Inl FormatError)"
    by blast
qed

lemma exact_read_nat: "exact read_nat"
proof (rule exactI)
  fix s e assume "read_nat s = Inl e"
  then show "e = FormatError"
    by (auto simp: read_nat_def split: list.splits field.splits if_splits)
next
  fix s x r assume "read_nat s = Inr (x, r)"
  then obtain i where i: "s = [IntField i] @ r" "0 \<le> i" "x = nat i"
    by (auto simp: read_nat_def split: list.splits field.splits if_splits)
  then have "\<forall>t. read_nat ([IntField i] @ t) = Inr (x, t)"
    by (simp add: read_nat_def)
  moreover have "\<forall>p. strict_prefix p [IntField i] \<longrightarrow> read_nat p = Inl FormatError"
    by (auto simp: read_nat_def dest: strict_prefix_single)
  ultimately show "\<exists>u. s = u @ r \<and> (\<forall>t. read_nat (u @ t) = Inr (x, t))
               \<and> (\<forall>p. strict_prefix p u \<longrightarrow> read_nat p = Inl FormatError)"
    using i(1) by blast
qed

lemma exact_read_string: "exact read_string"
proof (rule exactI)
  fix s e assume "read_string s = Inl e"
  then show "e = FormatError"
    by (auto simp: read_string_def split: list.splits field.splits)
next
  fix s x r assume "read_string s = Inr (x, r)"
  then have "s = [StringField x] @ r"
    by (auto simp: read_string_def split: list.splits field.splits)
  moreover have "\<forall>t. read_string ([StringField x] @ t) = Inr (x, t)"
    by (simp add: read_string_def)
  moreover have "\<forall>p. strict_prefix p [StringField x] \<longrightarrow> read_string p = Inl FormatError"
    by (auto simp: read_string_def dest: strict_prefix_single)
  ultimately show "\<exists>u. s = u @ r \<and> (\<forall>t. read_string (u @ t) = Inr (x, t))
               \<and> (\<forall>p. strict_prefix p u \<longrightarrow> read_string p = Inl FormatError)"
    by blast
qed

lemma exact_read_float: "exact read_float"
proof (rule exactI)
  fix s e assume "read_float s = Inl e"
  then show "e = FormatError"
    by (auto simp: read_float_def split: list.splits field.splits)
next
  fix s x r assume "read_float s = Inr (x, r)"
  then have "s = [FloatField x] @ r"
    by (auto simp: read_float_def split: list.splits field.splits)
  moreover have "\<forall>t. read_float ([FloatField x] @ t) = Inr (x, t)"
    by (simp add: read_float_def)
  moreover have "\<forall>p. strict_prefix p [FloatField x] \<longrightarrow> read_float p = Inl FormatError"
    by (auto simp: read_float_def dest: strict_prefix_single)
  ultimately show "\<exists>u. s = u @ r \<and> (\<forall>t. read_float (u @ t) = Inr (x, t))
               \<and> (\<forall>p. strict_prefix p u \<longrightarrow> read_float p = Inl FormatError)"
    by blast
qed

lemma exact_read_bool: "exact read_bool"
proof (rule exactI)
  fix s e assume "read_bool s = Inl e"
  then show "e = FormatError"
    by (auto simp: read_bool_def split: list.splits field.splits)
next
  fix s x r assume "read_bool s = Inr (x, r)"
  then have "s = [BoolField x] @ r"
    by (auto simp: read_bool_def split: list.splits field.splits)
  moreover have "\<forall>t. read_bool ([BoolField x] @ t) = Inr (x, t)"
    by (simp add: read_bool_def)
  moreover have "\<forall>p. strict_prefix p [BoolField x] \<longrightarrow> read_bool p = Inl FormatError"
    by (auto simp: read_bool_def dest: strict_prefix_single)
  ultimately show "\<exists>u. s = u @ r \<and> (\<forall>t. read_bool (u @ t) = Inr (x, t))
               \<and> (\<forall>p. strict_prefix p u \<longrightarrow> read_bool p = Inl FormatError)"
    by blast
qed

lemma strict_prefix_append_cases:
  assumes "strict_prefix p (u @ v)"
  shows "strict_prefix p u \<or> (\<exists>q. p = u @ q \<and> strict_prefix q v)"
proof -
  from assms have "prefix p (u @ v)" "p \<noteq> u @ v"
    by (auto simp: strict_prefix_def)
  then consider "prefix p u" | q where "p = u @ q" "prefix q v"
    by (auto simp: prefix_append)
  then show ?thesis
  proof cases
    case 1
    show ?thesis
    proof (cases "p = u")
      case True
      with \<open>p \<noteq> u @ v\<close> have "strict_prefix [] v"
        by (cases v) auto
      with True show ?thesis by auto
    next
      case False
      with 1 show ?thesis by (simp add: strict_prefix_def)
    qed
  next
    case 2
    with \<open>p \<noteq> u @ v\<close> show ?thesis
      by (auto simp: strict_prefix_def)
  qed
qed

lemma exact_rbind:
  assumes P: "exact P" and F: "\<And>x. exact (F x)"
  shows "exact (rbind P F)"
proof (rule exactI)
  fix s e assume "rbind P F s = Inl e"
  then show "e = FormatError"
    using P F unfolding exact_def rbind_def
    by (auto split: sum.splits prod.splits)
next
  fix s y r assume b: "rbind P F s = Inr (y, r)"
  then obtain x r1 where p: "P s = Inr (x, r1)" and f: "F x r1 = Inr (y, r)"
    by (auto simp: rbind_def split: sum.splits prod.splits)
  from P p obtain u1 where u1: "s = u1 @ r1" "\<forall>t. P (u1 @ t) = Inr (x, t)"
      "\<forall>p. strict_prefix p u1 \<longrightarrow> P p = Inl FormatError"
    unfolding exact_def by blast
  from F [of x] f obtain u2 where u2: "r1 = u2 @ r" "\<forall>t. F x (u2 @ t) = Inr (y, t)"
      "\<forall>p. strict_prefix p u2 \<longrightarrow> F x p = Inl FormatError"
    unfolding exact_def by blast
  have a: "s = (u1 @ u2) @ r"
    using u1(1) u2(1) by simp
  have c: "\<forall>t. rbind P F ((u1 @ u2) @ t) = Inr (y, t)"
    using u1(2) u2(2) by (simp add: rbind_def)
  have d: "\<forall>p. strict_prefix p (u1 @ u2) \<longrightarrow> rbind P F p = Inl FormatError"
  proof (intro allI impI)
    fix p assume "strict_prefix p (u1 @ u2)"
    then consider "strict_prefix p u1" | q where "p = u1 @ q" "strict_prefix q u2"
      using strict_prefix_append_cases by blast
    then show "rbind P F p = Inl FormatError"
    proof cases
      case 1
      with u1(3) show ?thesis by (simp add: rbind_def)
    next
      case 2
      with u1(2) u2(3) show ?thesis by (simp add: rbind_def)
    qed
  qed
  from a c d show "\<exists>u. s = u @ r \<and> (\<forall>t. rbind P F (u @ t) = Inr (y, t))
               \<and> (\<forall>p. strict_prefix p u \<longrightarrow> rbind P F p = Inl FormatError)"
    by blast
qed

lemma exact_if: "exact P \<Longrightarrow> exact Q \<Longrightarrow> exact (if c then P else Q)"
  by simp

lemma exact_read_n: "exact P \<Longrightarrow> exact (read_n n P)"
  by (induction n) (auto intro!: exact_rbind exact_rreturn)

lemmas exact_intros =
  exact_rbind exact_if exact_rreturn exact_rfail exact_read_n
  exact_read_int exact_read_nat exact_read_string exact_read_float exact_read_bool

lemma exact_read_model: "exact (read_model fmt)"
  unfolding read_model_def read_header_def read_args_def read_loss_def read_model_name_def
    read_dict_def read_entry_def read_huffman_def read_matrix_def
  by (intro exact_intros)

lemma load_errors: "load fmt s = Inl e \<Longrightarrow> e = FormatError"
  using exact_read_model [of fmt] unfolding exact_def load_def
  by (auto split: sum.splits prod.splits)

lemma load_header_mismatch:
  "magic \<noteq> fmt_magic fmt \<or> version \<noteq> fmt_version fmt \<Longrightarrow>
     load fmt (IntField magic # IntField version # rest) = Inl FormatError"
  by (auto simp: load_def read_model_def read_header_def rbind_def read_int_def rfail_def)

lemma load_truncated:
  assumes "load fmt s = Inr fresh"
  shows "\<exists>u. prefix u s \<and> (\<forall>p. prefix p s \<longrightarrow>
              (if prefix u p then load fmt p = Inr fresh else load fmt p = Inl FormatError))"
proof -
  from assms obtain r where "read_model fmt s = Inr (fresh, r)"
    by (auto simp: load_def split: sum.splits prod.splits)
  with exact_read_model [of fmt] obtain u
    where u: "s = u @ r" "\<forall>t. read_model fmt (u @ t) = Inr (fresh, t)"
      "\<forall>p. strict_prefix p u \<longrightarrow> read_model fmt p = Inl FormatError"
    unfolding exact_def by blast
  have "\<forall>p. prefix p s \<longrightarrow>
          (if prefix u p then load fmt p = Inr fresh else load fmt p = Inl FormatError)"
  proof (intro allI impI)
    fix p assume "prefix p s"
    show "if prefix u p then load fmt p = Inr fresh else load fmt p = Inl FormatError"
    proof (cases "prefix u p")
      case True
      then obtain t where "p = u @ t"
        by (auto simp: prefix_def)
      with u(2) True show ?thesis
        by (simp add: load_def)
    next
      case False
      from \<open>prefix p s\<close> u(1) have "prefix p u \<or> prefix u p"
        by (auto simp: prefix_append)
      with False have "strict_prefix p u"
        by (auto simp: strict_prefix_def)
      with u(3) False show ?thesis
        by (simp add: load_def)
    qed
  qed
  moreover have "prefix u s"
    using u(1) by simp
  ultimately show ?thesis
    by blast
qed

lemma load_truncated_sample: "load sample_format (butlast sample_stream) = Inl FormatError"
  by code_simp

text \<open>
  C2: for every stream, \<open>loadModel\<close> either succeeds and holds the model read, or fails
  with a format error and holds the model it held before, unchanged; it fails so when the
  magic number or the version differs; and when a stream loads, there is a part \<open>u\<close> of
  it that the layout takes, such that the stream cut anywhere inside \<open>u\<close> fails with a
  format error and leaves the held model unchanged.
\<close>

theorem loadModel_fails_cleanly:
  "((\<exists>fresh. load fmt s = Inr fresh \<and> loadModel fmt s current = (fresh, Inr ()))
      \<or> (load fmt s = Inl FormatError \<and> loadModel fmt s current = (current, Inl FormatError)))
   \<and> (\<forall>e. snd (loadModel fmt s current) = Inl e \<longrightarrow>
          e = FormatError \<and> fst (loadModel fmt s current) = current)
   \<and> (\<forall>magic version rest.
          s = IntField magic # IntField version # rest
          \<and> (magic \<noteq> fmt_magic fmt \<or> version \<noteq> fmt_version fmt)
          \<longrightarrow> loadModel fmt s current = (current, Inl FormatError))
   \<and> (snd (loadModel fmt s current) = Inr () \<longrightarrow>
          (\<exists>u. prefix u s
               \<and> (\<forall>p. prefix p s \<longrightarrow>
                     (if prefix u p then loadModel fmt p current = (fst (loadModel fmt s current), Inr ())
                      else loadModel fmt p current = (current, Inl FormatError)))))"
proof -
  have a: "(\<exists>fresh. load fmt s = Inr fresh \<and> loadModel fmt s current = (fresh, Inr ()))
      \<or> (load fmt s = Inl FormatError \<and> loadModel fmt s current = (current, Inl FormatError))"
    using load_errors [of fmt s] by (cases "load fmt s") (auto simp: loadModel_def)
  have b: "\<forall>e. snd (loadModel fmt s current) = Inl e \<longrightarrow>
          e = FormatError \<and> fst (loadModel fmt s current) = current"
    using load_errors [of fmt s] by (cases "load fmt s") (auto simp: loadModel_def)
  have c: "\<forall>magic version rest.
          s = IntField magic # IntField version # rest
          \<and> (magic \<noteq> fmt_magic fmt \<or> version \<noteq> fmt_version fmt)
          \<longrightarrow> loadModel fmt s current = (current, Inl FormatError)"
    using load_header_mismatch [of _ fmt] by (auto simp: loadModel_def)
  have d: "snd (loadModel fmt s current) = Inr () \<longrightarrow>
          (\<exists>u. prefix u s
               \<and> (\<forall>p. prefix p s \<longrightarrow>
                     (if prefix u p then loadModel fmt p current = (fst (loadModel fmt s current), Inr ())
                      else loadModel fmt p current = (current, Inl FormatError))))"
  proof
    assume "snd (loadModel fmt s current) = Inr ()"
    then obtain fresh where f: "load fmt s = Inr fresh"
      by (cases "load fmt s") (auto simp: loadModel_def)
    from load_truncated [OF f] obtain u where u: "prefix u s"
      "\<forall>p. prefix p s \<longrightarrow>
              (if prefix u p then load fmt p = Inr fresh else load fmt p = Inl FormatError)"
      by blast
    have "\<forall>p. prefix p s \<longrightarrow>
            (if prefix u p then loadModel fmt p current = (fst (loadModel fmt s current), Inr ())
             else loadModel fmt p current = (current, Inl FormatError))"
      using u(2) f by (auto simp: loadModel_def)
    with u(1) show "\<exists>u. prefix u s
               \<and> (\<forall>p. prefix p s \<longrightarrow>
                     (if prefix u p then loadModel fmt p current = (fst (loadModel fmt s current), Inr ())
                      else loadModel fmt p current = (current, Inl FormatError)))"
      by blast
  qed
  from a b c d show ?thesis
    by blast
qed

theorem loadModel_fails_cleanly_witness:
  "loadModel sample_format sample_stream toy_model = (sample_loaded, Inr ())
   \<and> loadModel sample_format (IntField 999 # tl sample_stream) toy_model =
       (toy_model, Inl FormatError)
   \<and> loadModel sample_format (butlast sample_stream) toy_model = (toy_model, Inl FormatError)
   \<and> loadModel sample_format [] toy_model = (toy_model, Inl FormatError)"
proof -
  from loadModel_fails_cleanly [of sample_format sample_stream toy_model] load_sample_stream
  have a: "loadModel sample_format sample_stream toy_model = (sample_loaded, Inr ())"
    by auto
  then have "snd (loadModel sample_format sample_stream toy_model) = Inr ()"
    by simp
  with loadModel_fails_cleanly [of sample_format sample_stream toy_model]
  obtain u where u: "prefix u sample_stream"
    "\<forall>p. prefix p sample_stream \<longrightarrow>
       (if prefix u p
        then loadModel sample_format p toy_model =
               (fst (loadModel sample_format sample_stream toy_model), Inr ())
        else loadModel sample_format p toy_model = (toy_model, Inl FormatError))"
    by blast
  have "prefix (butlast sample_stream) sample_stream" "prefix [] sample_stream"
    by (simp_all add: prefixeq_butlast)
  with u(2) load_truncated_sample
  have b: "loadModel sample_format (butlast sample_stream) toy_model = (toy_model, Inl FormatError)"
    by (auto simp: loadModel_def split: if_splits)
  have "\<exists>rest. IntField 999 # tl sample_stream = IntField 999 # IntField 1 # rest"
    "(999::int) \<noteq> fmt_magic sample_format"
    by (simp_all add: sample_stream_def sample_format_def)
  with loadModel_fails_cleanly [of sample_format "IntField 999 # tl sample_stream" toy_model]
  have c: "loadModel sample_format (IntField 999 # tl sample_stream) toy_model =
       (toy_model, Inl FormatError)"
    by blast
  have "snd (loadModel sample_format [] toy_model) = Inl FormatError"
    by (simp add: loadModel_def load_def read_model_def read_header_def rbind_def read_int_def)
  with loadModel_fails_cleanly [of sample_format "[]" toy_model]
  have d: "loadModel sample_format [] toy_model = (toy_model, Inl FormatError)"
    by (metis prod.collapse)
  from a b c d show ?thesis
    by simp
qed

end
